theory Spec2Isabelle
  imports Complex_Main "HOL-Library.Multiset"
begin

section \<open>The Eureka client: data model\<close>

text \<open>
  The client object of \<^verbatim>\<open>src/EurekaClient.js\<close> is embedded as a record of the fields its
  methods read and write, and every method as a function from that record to the updated
  record and the list of things the call did that the outside can see (signals emitted,
  callbacks invoked, requests sent, exceptions thrown).  A JavaScript value that may be
  \<^verbatim>\<open>undefined\<close> or \<^verbatim>\<open>null\<close> is an \<open>option\<close>, \<open>None\<close> standing for the missing value.

  A method that waits for the network is followed through its callbacks in the order in
  which they run, up to the end of the callback of its request; the answers it waits for
  (DNS, token, HTTP response, random numbers) are arguments.  What a timer does when it
  fires is not run by the method that set it: the timer stays in the state.  Calls of the
  logger are left out: they change nothing the client reads.
\<close>

subsection \<open>The endpoint ring\<close>

text \<open>
  \<^verbatim>\<open>config.eureka.serviceUrl\<close> is an array of URLs, its head being the current endpoint.
  \<^verbatim>\<open>Array.prototype.shift\<close> on an empty array returns \<^verbatim>\<open>undefined\<close> and leaves the array
  empty, and \<^verbatim>\<open>push\<close> appends whatever it is given, so rotating the empty array yields the
  one-element array holding \<^verbatim>\<open>undefined\<close>.
\<close>

type_synonym ring = "string option list"

definition shift :: "'a option list \<Rightarrow> 'a option \<times> 'a option list" where
  "shift xs = (case xs of [] \<Rightarrow> (None, []) | x # rest \<Rightarrow> (x, rest))"

definition push :: "'a list \<Rightarrow> 'a \<Rightarrow> 'a list" where
  "push xs x = xs @ [x]"

definition rotate_ring :: "ring \<Rightarrow> ring" where
  "rotate_ring r = (let (h, rest) = shift r in push rest h)"

subsection \<open>Configuration\<close>

text \<open>
  The part of the merged configuration the modelled methods read and never write.
  \<open>instanceId\<close> is the value of the getter of that name, \<open>oAuth2Enabled\<close> the one of
  the getter \<^verbatim>\<open>oAuth2Enabled\<close>, \<open>instance_app\<close> is \<^verbatim>\<open>config.instance.app\<close>; the other
  fields are those of \<^verbatim>\<open>config.eureka\<close>.
\<close>

record config =
  useDns :: bool
  ec2Region :: "string option"
  filterUpInstances :: bool
  oAuth2Enabled :: bool
  instance_app :: string
  instanceId :: string
  heartbeatInterval :: nat
  registryFetchInterval :: nat

subsection \<open>Registry payload and cache\<close>

text \<open>
  A registry payload as \<^verbatim>\<open>JSON.parse\<close> returns it, typed after the shape the client
  reads: \<^verbatim>\<open>{applications: {application: ...}}\<close>, where \<^verbatim>\<open>application\<close> may be missing,
  one application object or an array of them, and where the \<^verbatim>\<open>instance\<close> of an application
  is one instance object or an array of them.
\<close>

record inst =
  hostName :: string
  status :: string
  vipAddress :: string

datatype instance_json = Obj inst | Arr "inst list"

record application =
  app_name :: string
  app_instance :: instance_json

datatype application_json = OneApp application | AppArray "application list"

record applications =
  application :: "application_json option"

record registry =
  applications :: applications

text \<open>
  The cache maps a property name to an array.  The elements of a cached array are the
  values \<^verbatim>\<open>transformApp\<close> puts there: instance objects, and in one corner the
  \<^verbatim>\<open>instance\<close> value itself.
\<close>

record registry_cache =
  app :: "string \<rightharpoonup> instance_json list"
  vip :: "string \<rightharpoonup> instance_json list"

definition empty_cache :: registry_cache where
  "empty_cache = \<lparr>app = Map.empty, vip = Map.empty\<rparr>"

text \<open>Property reads on an \<^verbatim>\<open>instance\<close> value; \<open>None\<close> is \<^verbatim>\<open>undefined\<close>.\<close>

definition status_of :: "instance_json \<Rightarrow> string option" where
  "status_of x = (case x of Obj i \<Rightarrow> Some (status i) | Arr xs \<Rightarrow> None)"

definition vipAddress_of :: "instance_json \<Rightarrow> string option" where
  "vipAddress_of x = (case x of Obj i \<Rightarrow> Some (vipAddress i) | Arr xs \<Rightarrow> None)"

text \<open>A value used as a property name is turned into a string.\<close>

definition prop_key :: "string option \<Rightarrow> string" where
  "prop_key k = (case k of None \<Rightarrow> ''undefined'' | Some s \<Rightarrow> s)"

text \<open>
  \<^verbatim>\<open>String.prototype.toUpperCase\<close> on the ASCII letters; every other character is kept.
\<close>

definition upper_char :: "char \<Rightarrow> char" where
  "upper_char c =
     (case map_of (zip ''abcdefghijklmnopqrstuvwxyz'' ''ABCDEFGHIJKLMNOPQRSTUVWXYZ'') c of
        Some u \<Rightarrow> u
      | None \<Rightarrow> c)"

definition toUpperCase :: "string \<Rightarrow> string" where
  "toUpperCase s = map upper_char s"

definition validateInstance :: "config \<Rightarrow> instance_json \<Rightarrow> bool" where
  "validateInstance cfg x = (\<not> filterUpInstances cfg \<or> status_of x = Some ''UP'')"

text \<open>
  \<^verbatim>\<open>transformApp(app, cache)\<close>.  \<^verbatim>\<open>app.instance.length\<close> is truthy exactly for an array
  that is not empty: the first branch.  An instance object has no \<^verbatim>\<open>length\<close> and the empty
  array has length 0: both take the second branch, which tests the \<^verbatim>\<open>instance\<close> value
  itself and stores the one-element array holding it.
\<close>

definition transformApp :: "config \<Rightarrow> application \<Rightarrow> registry_cache \<Rightarrow> registry_cache" where
  "transformApp cfg a c =
     (case app_instance a of
        Arr (i0 # rest) \<Rightarrow>
          (let instances = filter (validateInstance cfg) (map Obj (i0 # rest));
               c1 = c\<lparr>app := (app c)(toUpperCase (app_name a) \<mapsto> instances)\<rparr>
           in c1\<lparr>vip := (vip c1)(prop_key (Some (vipAddress i0)) \<mapsto> instances)\<rparr>)
      | _ \<Rightarrow>
          (if validateInstance cfg (app_instance a) then
             (let instances = [app_instance a];
                  c1 = c\<lparr>vip := (vip c)(prop_key (vipAddress_of (app_instance a)) \<mapsto> instances)\<rparr>
              in c1\<lparr>app := (app c1)(toUpperCase (app_name a) \<mapsto> instances)\<rparr>)
           else c))"

text \<open>
  \<^verbatim>\<open>transformRegistry(registry)\<close>, as a function of the old cache: the cache the client
  holds afterwards.  \<open>None\<close> is a parsed body that is falsy (\<^verbatim>\<open>null\<close>).
\<close>

definition transformRegistry :: "config \<Rightarrow> registry option \<Rightarrow> registry_cache \<Rightarrow> registry_cache" where
  "transformRegistry cfg reg old =
     (case reg of
        None \<Rightarrow> old
      | Some r \<Rightarrow>
          (case application (applications r) of
             None \<Rightarrow> old
           | Some (AppArray as) \<Rightarrow> foldl (\<lambda>newCache a. transformApp cfg a newCache) empty_cache as
           | Some (OneApp a) \<Rightarrow> transformApp cfg a empty_cache))"

text \<open>
  What one application entry hands to the cache, read off the two branches of
  \<^verbatim>\<open>transformApp\<close>: the array \<^verbatim>\<open>instances\<close> it stores, \<open>None\<close> when it stores nothing, and
  the one property name it uses in \<^verbatim>\<open>cache.vip\<close>.
\<close>

definition entry_instances :: "config \<Rightarrow> application \<Rightarrow> instance_json list option" where
  "entry_instances cfg a =
     (case app_instance a of
        Arr (i0 # rest) \<Rightarrow> Some (filter (validateInstance cfg) (map Obj (i0 # rest)))
      | _ \<Rightarrow> (if validateInstance cfg (app_instance a) then Some [app_instance a] else None))"

definition entry_vip_key :: "application \<Rightarrow> string" where
  "entry_vip_key a =
     (case app_instance a of
        Arr (i0 # rest) \<Rightarrow> prop_key (Some (vipAddress i0))
      | _ \<Rightarrow> prop_key (vipAddress_of (app_instance a)))"

text \<open>
  The application entries of a payload in the order in which \<^verbatim>\<open>transformRegistry\<close> goes
  through them, and, for a property name, the array of the last entry that stores one
  under that name.
\<close>

definition entries :: "application_json \<Rightarrow> application list" where
  "entries apps = (case apps of AppArray as \<Rightarrow> as | OneApp a \<Rightarrow> [a])"

definition last_stored ::
  "config \<Rightarrow> (application \<Rightarrow> string) \<Rightarrow> application list \<Rightarrow> string \<Rightarrow> instance_json list option" where
  "last_stored cfg key as k =
     (case filter (\<lambda>a. entry_instances cfg a \<noteq> None \<and> key a = k) (rev as) of
        [] \<Rightarrow> None
      | a # earlier \<Rightarrow> entry_instances cfg a)"

subsection \<open>Client state, requests and events\<close>

text \<open>
  The token object of the OAuth2 helper: \<^verbatim>\<open>{}\<close> is the token without an
  \<^verbatim>\<open>access_token\<close>.
\<close>

record token =
  access_token :: "string option"

text \<open>
  Errors: \<open>Foreign\<close> is an error value a library handed over (the request, DNS or
  OAuth2 library), the others are the errors the client makes or the runtime throws.
\<close>

datatype error =
    Foreign string
  | RegistrationFailed nat string
  | DeregistrationFailed nat string
  | RegistryUnavailable
  | Ec2RegionUndefined
  | DnsResolveError string
  | DnsLocateError string
  | TypeError
  | SyntaxError

text \<open>
  The URL a request goes to: the current entry of the ring as it is, or the result of
  \<^verbatim>\<open>url.format\<close> on the parsed current entry whose \<^verbatim>\<open>host\<close> was overwritten.
\<close>

datatype eureka_url =
    Static "string option"
  | Formatted "string option" "string option"

datatype http_method = POST | PUT | DELETE | GET

record request =
  verb :: http_method
  base :: eureka_url
  path :: string
  headers :: "string \<rightharpoonup> string"

text \<open>
  The callback a method was given: the default \<^verbatim>\<open>noop\<close> or the caller's.  The events of a
  call; the timers a client can have pending, each with its delay in milliseconds; and
  the client itself: the ring, \<^verbatim>\<open>config.instance.status\<close>, the cache, the three timer
  handles it keeps, all timers that are pending, and the token the OAuth2 helper holds.
\<close>

datatype callback = Noop | Caller

datatype event =
    Emit string
  | Invoke callback "error option"
  | Sent request
  | Thrown error

datatype timer_action = WarnSlowRegistration | Renew | FetchRegistry | Register callback

type_synonym timer = "timer_action \<times> nat"

record state =
  serviceUrl :: ring
  instance_status :: "string option"
  cache :: registry_cache
  heartbeat :: "nat option"
  registryFetch :: "nat option"
  reregisterTimeout :: "nat option"
  timers :: "nat \<rightharpoonup> timer"
  nextTimer :: nat
  oauth_token :: token

text \<open>
  What the world answers.  A transport error carries the error value of the library, a
  response its status code and body; \<open>resolveTxt\<close> is the DNS, \<open>parse_host\<close> is
  \<^verbatim>\<open>url.parse(u).host\<close>, and a random number is the value \<^verbatim>\<open>Math.random()\<close> returned.
\<close>

datatype 'b outcome = Failed string | Responded nat 'b

text \<open>
  The body of a response as \<^verbatim>\<open>JSON.parse\<close> sees it: no JSON text; a value that is not
  falsy and has no \<^verbatim>\<open>applications\<close> (\<^verbatim>\<open>{}\<close>); or a registry of the shape above, \<open>None\<close>
  being a falsy value (\<^verbatim>\<open>null\<close>).
\<close>

datatype parsed_body = Malformed | NoApplications | Parsed "registry option"

record dns_env =
  resolveTxt :: "string \<Rightarrow> string + string list list"
  parse_host :: "string \<Rightarrow> string option"
  dns_random :: real

record lookup_env =
  dns :: dns_env
  token_result :: "string + token"

record register_env =
  reg_lookup :: lookup_env
  reg_outcome :: "string outcome"
  reg_random :: real

record renew_env =
  hb_lookup :: lookup_env
  hb_outcome :: "string outcome"
  hb_register :: register_env

record deregister_env =
  dereg_lookup :: lookup_env
  dereg_outcome :: "string outcome"

record fetch_env =
  fetch_lookup :: lookup_env
  fetch_outcome :: "parsed_body outcome"

section \<open>The Eureka client: methods\<close>

subsection \<open>Timers\<close>

text \<open>
  \<^verbatim>\<open>setTimeout\<close> and \<^verbatim>\<open>setInterval\<close> return a fresh handle; \<^verbatim>\<open>clearTimeout\<close> and
  \<^verbatim>\<open>clearInterval\<close> of \<^verbatim>\<open>undefined\<close> do nothing.
\<close>

definition setTimer :: "timer \<Rightarrow> state \<Rightarrow> nat \<times> state" where
  "setTimer t st =
     (nextTimer st, st\<lparr>timers := (timers st)(nextTimer st \<mapsto> t), nextTimer := Suc (nextTimer st)\<rparr>)"

definition clearTimer :: "nat option \<Rightarrow> state \<Rightarrow> state" where
  "clearTimer h st = (case h of None \<Rightarrow> st | Some n \<Rightarrow> st\<lparr>timers := (timers st)(n := None)\<rparr>)"

subsection \<open>Endpoint ring\<close>

definition currentServiceUrl :: "state \<Rightarrow> string option" where
  "currentServiceUrl st = (case serviceUrl st of [] \<Rightarrow> None | u # rest \<Rightarrow> u)"

definition rotateCurrentServiceUrl :: "state \<Rightarrow> state" where
  "rotateCurrentServiceUrl st = st\<lparr>serviceUrl := rotate_ring (serviceUrl st)\<rparr>"

subsection \<open>Endpoint resolution and authorization\<close>

text \<open>
  The asynchronous methods take their callback as a function: what the callback does to
  the client and the events it causes.  An exception nobody catches ends the events of
  the call with \<open>Thrown\<close>.
\<close>

type_synonym 'a cont = "'a \<Rightarrow> state \<Rightarrow> state \<times> event list"

definition then_throw :: "error \<Rightarrow> state \<times> event list \<Rightarrow> state \<times> event list" where
  "then_throw e r = (fst r, snd r @ [Thrown e])"

definition js_falsy :: "string option \<Rightarrow> bool" where
  "js_falsy s = (s = None \<or> s = Some [])"

definition template :: "string option \<Rightarrow> string \<Rightarrow> string" where
  "template v missing = (case v of None \<Rightarrow> missing | Some s \<Rightarrow> s)"

definition random_index :: "real \<Rightarrow> nat \<Rightarrow> nat" where
  "random_index r n = nat \<lfloor>r * real n\<rfloor>"

definition index :: "'a list \<Rightarrow> nat \<Rightarrow> 'a option" where
  "index xs i = (if i < length xs then Some (xs ! i) else None)"

text \<open>
  \<^verbatim>\<open>getTokenForClientCredentials(callback)\<close> of the OAuth2 helper: on an error the callback
  receives the error and the token the helper holds from before.
\<close>

definition getTokenForClientCredentials ::
  "string + token \<Rightarrow> (string option \<times> token) cont \<Rightarrow> state \<Rightarrow> state \<times> event list" where
  "getTokenForClientCredentials result callback st =
     (case result of
        Inl error \<Rightarrow> callback (Some error, oauth_token st) st
      | Inr t \<Rightarrow> (let st1 = st\<lparr>oauth_token := t\<rparr> in callback (None, oauth_token st1) st1))"

text \<open>
  \<^verbatim>\<open>locateEurekaHostUsingDns(callback)\<close>.  \<^verbatim>\<open>url.parse\<close> throws on a value that is no
  string; \<^verbatim>\<open>addresses[0].length\<close> throws when the first answer is empty; after a failed
  second lookup the callback is invoked with the error and the function runs on into
  spreading the undefined \<^verbatim>\<open>results\<close>, which throws.
\<close>

definition locateEurekaHostUsingDns ::
  "config \<Rightarrow> dns_env \<Rightarrow> (error option \<times> string option) cont \<Rightarrow> state \<Rightarrow> state \<times> event list" where
  "locateEurekaHostUsingDns cfg d callback st =
     (case currentServiceUrl st of
        None \<Rightarrow> (st, [Thrown TypeError])
      | Some u \<Rightarrow>
          (let host = parse_host d u in
           if js_falsy (ec2Region cfg) then callback (Some Ec2RegionUndefined, None) st
           else
             (case resolveTxt d (''txt.'' @ template (ec2Region cfg) ''undefined'' @ ''.''
                                  @ template host ''null'') of
                Inl err \<Rightarrow> callback (Some (DnsResolveError err), None) st
              | Inr addresses \<Rightarrow>
                  (case addresses of
                     [] \<Rightarrow> (st, [Thrown TypeError])
                   | a0 # rest \<Rightarrow>
                       (let random = random_index (dns_random d) (length a0) in
                        case resolveTxt d (''txt.'' @ template (index a0 random) ''undefined'') of
                          Inl resolveErr \<Rightarrow>
                            then_throw TypeError (callback (Some (DnsLocateError resolveErr), None) st)
                        | Inr results \<Rightarrow> callback (None, index (concat results) 0) st)))))"

text \<open>
  \<^verbatim>\<open>lookupCurrentEurekaHost(callback)\<close>: the callback receives the error, the URL and the
  token.
\<close>

definition lookupCurrentEurekaHost ::
  "config \<Rightarrow> lookup_env \<Rightarrow> (error option \<times> eureka_url \<times> token option) cont
     \<Rightarrow> state \<Rightarrow> state \<times> event list" where
  "lookupCurrentEurekaHost cfg env callback st =
     (if useDns cfg then
        locateEurekaHostUsingDns cfg (dns env)
          (\<lambda>(err, resolvedHost) st1.
             if oAuth2Enabled cfg then
               getTokenForClientCredentials (token_result env)
                 (\<lambda>(error, token) st2.
                    callback (None, Formatted (currentServiceUrl st1) resolvedHost, Some token) st2)
                 st1
             else callback (None, Formatted (currentServiceUrl st1) resolvedHost, None) st1)
          st
      else if oAuth2Enabled cfg then
        getTokenForClientCredentials (token_result env)
          (\<lambda>(error, token) st2. callback (None, Static (currentServiceUrl st2), Some token) st2)
          st
      else callback (None, Static (currentServiceUrl st), None) st)"

definition setAuthorizationInHeader :: "request \<Rightarrow> token option \<Rightarrow> request" where
  "setAuthorizationInHeader requestData token =
     (case token of
        None \<Rightarrow> requestData
      | Some t \<Rightarrow>
          requestData\<lparr>headers := (headers requestData)
            (''Authorization'' \<mapsto> ''Bearer '' @ template (access_token t) ''undefined'')\<rparr>)"

subsection \<open>Heartbeats\<close>

definition startHeartbeats :: "config \<Rightarrow> state \<Rightarrow> state" where
  "startHeartbeats cfg st =
     (let (h, st1) = setTimer (Renew, heartbeatInterval cfg) st in st1\<lparr>heartbeat := Some h\<rparr>)"

definition stopHeartbeats :: "state \<Rightarrow> state" where
  "stopHeartbeats st = clearTimer (heartbeat st) st"

subsection \<open>Registration\<close>

text \<open>
  The callback of \<^verbatim>\<open>request.post\<close> in \<^verbatim>\<open>register\<close>: the three branches in the order of
  the source.
\<close>

definition register_response ::
  "config \<Rightarrow> callback \<Rightarrow> nat \<Rightarrow> string outcome \<Rightarrow> real \<Rightarrow> state \<Rightarrow> state \<times> event list" where
  "register_response cfg callback connectionTimeout result rnd st =
     (let st1 = clearTimer (Some connectionTimeout) st in
      case result of
        Responded statusCode body \<Rightarrow>
          (if statusCode = 204 then
             (startHeartbeats cfg st1, [Emit ''registered'', Invoke callback None])
           else (st1, [Invoke callback (Some (RegistrationFailed statusCode body))]))
      | Failed error \<Rightarrow>
          (let st2 = rotateCurrentServiceUrl st1;
               backoff = nat \<lfloor>rnd * 2000\<rfloor>;
               (h, st3) = setTimer (Register callback, backoff) st2
           in (st3\<lparr>reregisterTimeout := Some h\<rparr>, [])))"

text \<open>
  \<^verbatim>\<open>register(callback)\<close>, one attempt: up to the end of the callback of its request.  The
  retry it may schedule stays in \<open>timers\<close>.  Of the request only the HTTP verb, the URL
  (endpoint and path) and the headers are kept.
\<close>

definition register :: "config \<Rightarrow> callback \<Rightarrow> register_env \<Rightarrow> state \<Rightarrow> state \<times> event list" where
  "register cfg callback env st =
     (let st1 = st\<lparr>instance_status := Some ''UP''\<rparr>;
          (connectionTimeout, st2) = setTimer (WarnSlowRegistration, 10000) st1
      in lookupCurrentEurekaHost cfg (reg_lookup env)
           (\<lambda>(err, eurekaUrl, token) s.
              case err of
                Some e \<Rightarrow> (s, [Invoke callback (Some e)])
              | None \<Rightarrow>
                  (let requestData = setAuthorizationInHeader
                         \<lparr>verb = POST, base = eurekaUrl, path = instance_app cfg,
                          headers = Map.empty\<rparr> token;
                       r = register_response cfg callback connectionTimeout
                             (reg_outcome env) (reg_random env) s
                   in (fst r, Sent requestData # snd r)))
           st2)"

text \<open>
  The pending retry fires: the timer is gone and \<^verbatim>\<open>register(callback)\<close> runs again, one
  answer of the world after the other, as long as the last attempt left a retry behind.
\<close>

fun run_reregister :: "config \<Rightarrow> register_env list \<Rightarrow> state \<Rightarrow> state \<times> event list" where
  "run_reregister cfg [] st = (st, [])"
| "run_reregister cfg (env # envs) st =
     (case reregisterTimeout st of
        None \<Rightarrow> (st, [])
      | Some h \<Rightarrow>
          (case timers st h of
             Some (Register callback, delay) \<Rightarrow>
               (let r1 = register cfg callback env (st\<lparr>timers := (timers st)(h := None)\<rparr>);
                    r2 = run_reregister cfg envs (fst r1)
                in (fst r2, snd r1 @ snd r2))
           | _ \<Rightarrow> (st, [])))"

definition deregister :: "config \<Rightarrow> callback \<Rightarrow> deregister_env \<Rightarrow> state \<Rightarrow> state \<times> event list" where
  "deregister cfg callback env st =
     lookupCurrentEurekaHost cfg (dereg_lookup env)
       (\<lambda>(err, eurekaUrl, token) s.
          case err of
            Some e \<Rightarrow> (s, [Invoke callback (Some e)])
          | None \<Rightarrow>
              (let requestData = setAuthorizationInHeader
                     \<lparr>verb = DELETE, base = eurekaUrl,
                      path = instance_app cfg @ ''/'' @ instanceId cfg, headers = Map.empty\<rparr> token
               in (s, Sent requestData #
                     (case dereg_outcome env of
                        Responded statusCode body \<Rightarrow>
                          (if statusCode = 200 then [Emit ''deregistered'', Invoke callback None]
                           else [Invoke callback (Some (DeregistrationFailed statusCode body))])
                      | Failed error \<Rightarrow> [Invoke callback (Some (Foreign error))]))))
       st"

definition stop :: "config \<Rightarrow> callback \<Rightarrow> deregister_env \<Rightarrow> state \<Rightarrow> state \<times> event list" where
  "stop cfg callback env st =
     (let st1 = clearTimer (registryFetch st) st;
          st2 = clearTimer (reregisterTimeout st1) st1;
          st3 = stopHeartbeats st2
      in deregister cfg callback env st3)"

subsection \<open>Renewal\<close>

text \<open>The callback of \<^verbatim>\<open>request.put\<close> in \<^verbatim>\<open>renew\<close>.\<close>

definition renew_response ::
  "config \<Rightarrow> string outcome \<Rightarrow> register_env \<Rightarrow> state \<Rightarrow> state \<times> event list" where
  "renew_response cfg result renv st =
     (case result of
        Responded statusCode body \<Rightarrow>
          (if statusCode = 200 then (st, [Emit ''heartbeat''])
           else if statusCode = 404 then register cfg Noop renv (stopHeartbeats st)
           else register cfg Noop renv (rotateCurrentServiceUrl (stopHeartbeats st)))
      | Failed error \<Rightarrow> register cfg Noop renv (rotateCurrentServiceUrl (stopHeartbeats st)))"

definition renew :: "config \<Rightarrow> renew_env \<Rightarrow> state \<Rightarrow> state \<times> event list" where
  "renew cfg env st =
     lookupCurrentEurekaHost cfg (hb_lookup env)
       (\<lambda>(err, eurekaUrl, token) s.
          case err of
            Some e \<Rightarrow> (s, [])
          | None \<Rightarrow>
              (let requestData = setAuthorizationInHeader
                     \<lparr>verb = PUT, base = eurekaUrl,
                      path = instance_app cfg @ ''/'' @ instanceId cfg, headers = Map.empty\<rparr> token;
                   r = renew_response cfg (hb_outcome env) (hb_register env) s
               in (fst r, Sent requestData # snd r)))
       st"

subsection \<open>Registry fetch\<close>

definition startRegistryFetches :: "config \<Rightarrow> state \<Rightarrow> state" where
  "startRegistryFetches cfg st =
     (let (h, st1) = setTimer (FetchRegistry, registryFetchInterval cfg) st
      in st1\<lparr>registryFetch := Some h\<rparr>)"

text \<open>
  The callback of \<^verbatim>\<open>request.get\<close> in \<^verbatim>\<open>fetchRegistry\<close>.  \<^verbatim>\<open>JSON.parse\<close> throws on a body
  that is no JSON text, and \<^verbatim>\<open>transformRegistry\<close> throws when it reads
  \<^verbatim>\<open>registry.applications.application\<close> of a registry without \<^verbatim>\<open>applications\<close>: in both
  cases nothing after the throw runs.
\<close>

definition fetch_response ::
  "config \<Rightarrow> callback \<Rightarrow> parsed_body outcome \<Rightarrow> state \<Rightarrow> state \<times> event list" where
  "fetch_response cfg callback result st =
     (case result of
        Responded statusCode body \<Rightarrow>
          (if statusCode = 200 then
             (case body of
                Malformed \<Rightarrow> (st, [Thrown SyntaxError])
              | NoApplications \<Rightarrow> (st, [Thrown TypeError])
              | Parsed reg \<Rightarrow>
                  (st\<lparr>cache := transformRegistry cfg reg (cache st)\<rparr>,
                   [Emit ''registryUpdated'', Invoke callback None]))
           else (st, [Invoke callback (Some RegistryUnavailable)]))
      | Failed error \<Rightarrow> (st, [Invoke callback (Some (Foreign error))]))"

definition fetchRegistry :: "config \<Rightarrow> callback \<Rightarrow> fetch_env \<Rightarrow> state \<Rightarrow> state \<times> event list" where
  "fetchRegistry cfg callback env st =
     lookupCurrentEurekaHost cfg (fetch_lookup env)
       (\<lambda>(err, eurekaUrl, token) s.
          case err of
            Some e \<Rightarrow> (s, [Invoke callback (Some e)])
          | None \<Rightarrow>
              (let requestData = setAuthorizationInHeader
                     \<lparr>verb = GET, base = eurekaUrl, path = [],
                      headers = [''Accept'' \<mapsto> ''application/json'']\<rparr> token;
                   r = fetch_response cfg callback (fetch_outcome env) s
               in (fst r, Sent requestData # snd r)))
       st"

subsection \<open>Reading the events of a call\<close>

definition invocations :: "event list \<Rightarrow> (callback \<times> error option) list" where
  "invocations evs = concat (map (\<lambda>ev. case ev of Invoke c e \<Rightarrow> [(c, e)] | _ \<Rightarrow> []) evs)"

definition requests :: "event list \<Rightarrow> request list" where
  "requests evs = concat (map (\<lambda>ev. case ev of Sent r \<Rightarrow> [r] | _ \<Rightarrow> []) evs)"

definition signals :: "event list \<Rightarrow> string list" where
  "signals evs = concat (map (\<lambda>ev. case ev of Emit n \<Rightarrow> [n] | _ \<Rightarrow> []) evs)"

text \<open>The entry of the ring a URL was made from, and the requests that go to it.\<close>

definition ring_entry :: "eureka_url \<Rightarrow> string option" where
  "ring_entry u = (case u of Static v \<Rightarrow> v | Formatted v h \<Rightarrow> v)"

definition aims_at :: "request \<Rightarrow> string option \<Rightarrow> bool" where
  "aims_at rq u = (ring_entry (base rq) = u)"

subsection \<open>Example inputs\<close>

text \<open>
  A client as the constructor leaves it, with two endpoints, no DNS and no OAuth2, and
  answers of the world: a connection that is refused, a server that answers 500.
\<close>

definition cfg_static :: config where
  "cfg_static = \<lparr>useDns = False, ec2Region = None, filterUpInstances = True,
     oAuth2Enabled = False, instance_app = ''orders'', instanceId = ''orders-1'',
     heartbeatInterval = 30000, registryFetchInterval = 30000\<rparr>"

definition st_fresh :: state where
  "st_fresh = \<lparr>serviceUrl = [Some ''http://eureka1/apps/'', Some ''http://eureka2/apps/''],
     instance_status = None, cache = empty_cache, heartbeat = None, registryFetch = None,
     reregisterTimeout = None, timers = Map.empty, nextTimer = 0,
     oauth_token = \<lparr>access_token = None\<rparr>\<rparr>"

definition lookup_quiet :: lookup_env where
  "lookup_quiet = \<lparr>dns = \<lparr>resolveTxt = (\<lambda>name. Inl ''ENOTFOUND''), parse_host = (\<lambda>u. None),
     dns_random = 0\<rparr>, token_result = Inl ''ECONNREFUSED''\<rparr>"

definition env_refused :: register_env where
  "env_refused = \<lparr>reg_lookup = lookup_quiet, reg_outcome = Failed ''ECONNREFUSED'',
     reg_random = 1 / 2\<rparr>"

definition env_rejected :: register_env where
  "env_rejected = \<lparr>reg_lookup = lookup_quiet, reg_outcome = Responded 500 ''busy'',
     reg_random = 1 / 2\<rparr>"

text \<open>
  A registered client with its heartbeat timer running, a registration that is accepted,
  and three answers to a heartbeat: 200, 404 and 503.
\<close>

definition env_accepted :: register_env where
  "env_accepted = \<lparr>reg_lookup = lookup_quiet, reg_outcome = Responded 204 [],
     reg_random = 1 / 2\<rparr>"

definition st_beating :: state where
  "st_beating = \<lparr>serviceUrl = [Some ''http://eureka1/apps/'', Some ''http://eureka2/apps/''],
     instance_status = Some ''UP'', cache = empty_cache, heartbeat = Some 1, registryFetch = None,
     reregisterTimeout = None, timers = [1 \<mapsto> (Renew, 30000)], nextTimer = 2,
     oauth_token = \<lparr>access_token = None\<rparr>\<rparr>"

definition hb_alive :: renew_env where
  "hb_alive = \<lparr>hb_lookup = lookup_quiet, hb_outcome = Responded 200 [],
     hb_register = env_accepted\<rparr>"

definition hb_forgotten :: renew_env where
  "hb_forgotten = \<lparr>hb_lookup = lookup_quiet, hb_outcome = Responded 404 [],
     hb_register = env_accepted\<rparr>"

definition hb_unavailable :: renew_env where
  "hb_unavailable = \<lparr>hb_lookup = lookup_quiet, hb_outcome = Responded 503 [],
     hb_register = env_accepted\<rparr>"

text \<open>
  Instances, a client that holds a cache, and answers to a registry fetch: a transport
  error, a 503, a payload with one application, the body \<^verbatim>\<open>null\<close>, and a payload without
  \<^verbatim>\<open>application\<close>.
\<close>

definition inst_a :: inst where
  "inst_a = \<lparr>hostName = ''host-a'', status = ''UP'', vipAddress = ''orders-vip''\<rparr>"

definition inst_b :: inst where
  "inst_b = \<lparr>hostName = ''host-b'', status = ''UP'', vipAddress = ''orders-v2''\<rparr>"

definition inst_down :: inst where
  "inst_down = \<lparr>hostName = ''host-c'', status = ''DOWN'', vipAddress = ''billing-vip''\<rparr>"

definition inst_c :: inst where
  "inst_c = \<lparr>hostName = ''host-d'', status = ''UP'', vipAddress = ''billing-vip''\<rparr>"

definition st_cached :: state where
  "st_cached = st_beating\<lparr>cache := \<lparr>app = [''ORDERS'' \<mapsto> [Obj inst_a]],
                                      vip = [''orders-vip'' \<mapsto> [Obj inst_a]]\<rparr>\<rparr>"



definition fetch_billing :: fetch_env where
  "fetch_billing = \<lparr>fetch_lookup = lookup_quiet,
     fetch_outcome = Responded 200 (Parsed (Some \<lparr>applications = \<lparr>application =
       Some (AppArray [\<lparr>app_name = ''billing'', app_instance = Obj inst_c\<rparr>])\<rparr>\<rparr>))\<rparr>"

definition fetch_null :: fetch_env where
  "fetch_null = \<lparr>fetch_lookup = lookup_quiet, fetch_outcome = Responded 200 (Parsed None)\<rparr>"

definition fetch_no_application :: fetch_env where
  "fetch_no_application = \<lparr>fetch_lookup = lookup_quiet,
     fetch_outcome = Responded 200 (Parsed (Some \<lparr>applications = \<lparr>application = None\<rparr>\<rparr>))\<rparr>"

text \<open>Payload entries: an application with two instances under different VIP addresses,
  and one whose only instance is down, sent as an object and sent as an array.\<close>

definition orders_two_vips :: application where
  "orders_two_vips = \<lparr>app_name = ''orders'', app_instance = Arr [inst_a, inst_b]\<rparr>"

definition billing_single_down :: application where
  "billing_single_down = \<lparr>app_name = ''billing'', app_instance = Obj inst_down\<rparr>"

definition billing_array_down :: application where
  "billing_array_down = \<lparr>app_name = ''billing'', app_instance = Arr [inst_down]\<rparr>"

text \<open>
  A second application whose instance advertises the VIP address of the first entry's
  first instance; a payload with both entries; a payload whose \<^verbatim>\<open>application\<close> is the
  empty array.
\<close>

definition inst_e :: inst where
  "inst_e = \<lparr>hostName = ''host-e'', status = ''UP'', vipAddress = ''orders-vip''\<rparr>"

definition pay :: application where
  "pay = \<lparr>app_name = ''pay'', app_instance = Obj inst_e\<rparr>"

definition fetch_orders_pay :: fetch_env where
  "fetch_orders_pay = \<lparr>fetch_lookup = lookup_quiet,
     fetch_outcome = Responded 200 (Parsed (Some \<lparr>applications = \<lparr>application =
       Some (AppArray [orders_two_vips, pay])\<rparr>\<rparr>))\<rparr>"

definition fetch_no_entries :: fetch_env where
  "fetch_no_entries = \<lparr>fetch_lookup = lookup_quiet,
     fetch_outcome = Responded 200 (Parsed (Some \<lparr>applications = \<lparr>application =
       Some (AppArray [])\<rparr>\<rparr>))\<rparr>"

text \<open>
  Configurations with DNS discovery, without and with a region; a DNS whose second lookup
  fails; a configuration with OAuth2.  In \<open>lookup_quiet\<close> every DNS lookup and the token
  request fail.
\<close>

definition cfg_dns :: config where
  "cfg_dns = cfg_static\<lparr>useDns := True\<rparr>"

definition cfg_dns_region :: config where
  "cfg_dns_region = cfg_static\<lparr>useDns := True, ec2Region := Some ''us-east-1''\<rparr>"

definition lookup_second_fails :: lookup_env where
  "lookup_second_fails = \<lparr>dns = \<lparr>resolveTxt = (\<lambda>name. if name = ''txt.us-east-1.eureka1''
        then Inr ([''us-east-1a.eureka1''] # []) else Inl ''ENOTFOUND''),
     parse_host = (\<lambda>u. Some ''eureka1''), dns_random = 0\<rparr>, token_result = Inl ''ECONNREFUSED''\<rparr>"

definition cfg_oauth :: config where
  "cfg_oauth = cfg_static\<lparr>oAuth2Enabled := True\<rparr>"

section \<open>Properties\<close>

subsection \<open>The endpoint ring\<close>

lemma rotate_ring_Cons: "rotate_ring (x # xs) = xs @ [x]"
  by (simp add: rotate_ring_def shift_def push_def)

lemma rotate_ring_Nil: "rotate_ring [] = [None]"
  by (simp add: rotate_ring_def shift_def push_def)

lemma rotate_ring_rotate1: "r \<noteq> [] \<Longrightarrow> rotate_ring r = rotate1 r"
  by (cases r) (simp_all add: rotate_ring_Cons)

lemma rotate_ring_funpow: "r \<noteq> [] \<Longrightarrow> (rotate_ring ^^ n) r = rotate n r"
proof (induction n)
  case 0
  show ?case by simp
next
  case (Suc n)
  have "rotate n r \<noteq> []" using Suc.prems by simp
  then have "rotate_ring (rotate n r) = rotate1 (rotate n r)"
    by (rule rotate_ring_rotate1)
  with Suc show ?case by simp
qed

text \<open>
  C9.  \<^verbatim>\<open>rotateCurrentServiceUrl\<close> replaces the ring by its rotation and rotating the
  ring is a cyclic shift that deletes nothing: \<open>[A, B, C]\<close> becomes
  \<open>[B, C, A]\<close>, three rotations give \<open>[A, B, C]\<close> back, and for every ring that passed
  validation (the constructor refuses an empty one) a rotation keeps the length, the
  set and the multiset of the URLs, and as many rotations as the ring is long are the
  identity.
\<close>

theorem rotate_ring_cyclic:
  "serviceUrl (rotateCurrentServiceUrl st) = rotate_ring (serviceUrl st)
   \<and> rotate_ring [Some A, Some B, Some C] = [Some B, Some C, Some A]
   \<and> (rotate_ring ^^ 3) [Some A, Some B, Some C] = [Some A, Some B, Some C]
   \<and> (r \<noteq> [] \<longrightarrow>
        length (rotate_ring r) = length r
      \<and> set (rotate_ring r) = set r
      \<and> mset (rotate_ring r) = mset r
      \<and> (rotate_ring ^^ length r) r = r)"
proof -
  have a: "rotate_ring [Some A, Some B, Some C] = [Some B, Some C, Some A]"
    by (simp add: rotate_ring_Cons)
  have b: "(rotate_ring ^^ 3) [Some A, Some B, Some C] = [Some A, Some B, Some C]"
    by (simp add: numeral_3_eq_3 rotate_ring_Cons)
  have c: "length (rotate_ring r) = length r \<and> set (rotate_ring r) = set r
      \<and> mset (rotate_ring r) = mset r \<and> (rotate_ring ^^ length r) r = r" if "r \<noteq> []"
  proof -
    from that obtain x xs where r: "r = x # xs" by (cases r) auto
    have "(rotate_ring ^^ length r) r = rotate (length r) r"
      using that by (rule rotate_ring_funpow)
    then have "(rotate_ring ^^ length r) r = r" by simp
    moreover have "length (rotate_ring r) = length r \<and> set (rotate_ring r) = set r
      \<and> mset (rotate_ring r) = mset r" by (simp add: r rotate_ring_Cons)
    ultimately show ?thesis by blast
  qed
  have d: "serviceUrl (rotateCurrentServiceUrl st) = rotate_ring (serviceUrl st)"
    by (simp add: rotateCurrentServiceUrl_def)
  from a b c d show ?thesis by blast
qed

theorem rotate_ring_cyclic_witness:
  "[Some ''http://a/'', Some ''http://b/''] \<noteq> []
   \<and> length (rotate_ring [Some ''http://a/'', Some ''http://b/'']) = 2
   \<and> set (rotate_ring [Some ''http://a/'', Some ''http://b/''])
       = {Some ''http://a/'', Some ''http://b/''}
   \<and> (rotate_ring ^^ 2) [Some ''http://a/'', Some ''http://b/'']
       = [Some ''http://a/'', Some ''http://b/'']"
  using rotate_ring_cyclic [of st_fresh "''x''" "''y''" "''z''"
          "[Some ''http://a/'', Some ''http://b/'']"]
  by (simp add: insert_commute numeral_2_eq_2)

subsection \<open>Endpoint resolution: how the callback is reached\<close>

text \<open>
  Whatever the configuration and the answers of DNS and token provider, the lookup either
  throws before its callback, or invokes the callback (always with no error) on a state
  that differs from the one it started in by the stored token at most, possibly throwing
  afterwards.
\<close>

lemma token_eq:
  "getTokenForClientCredentials res k st =
     k (case res of Inl e \<Rightarrow> Some e | Inr t \<Rightarrow> None, case res of Inl e \<Rightarrow> oauth_token st | Inr t \<Rightarrow> t)
       (st\<lparr>oauth_token := (case res of Inl e \<Rightarrow> oauth_token st | Inr t \<Rightarrow> t)\<rparr>)"
  by (cases res) (simp_all add: getTokenForClientCredentials_def)

lemma locate_cases:
  "locateEurekaHostUsingDns cfg d k st = (st, [Thrown TypeError])
   \<or> (\<exists>e h. locateEurekaHostUsingDns cfg d k st = k (e, h) st)
   \<or> (\<exists>e h. locateEurekaHostUsingDns cfg d k st = then_throw TypeError (k (e, h) st))"
  unfolding locateEurekaHostUsingDns_def Let_def
  by (auto split: option.splits sum.splits list.splits)

lemma lookup_cases:
  "lookupCurrentEurekaHost cfg env k st = (st, [Thrown TypeError])
   \<or> (\<exists>u t tk. lookupCurrentEurekaHost cfg env k st = k (None, u, t) (st\<lparr>oauth_token := tk\<rparr>)
          \<and> ring_entry u = currentServiceUrl st)
   \<or> (\<exists>u t tk. lookupCurrentEurekaHost cfg env k st
         = then_throw TypeError (k (None, u, t) (st\<lparr>oauth_token := tk\<rparr>))
          \<and> ring_entry u = currentServiceUrl st)"
proof (cases "useDns cfg")
  case False
  have "\<exists>u t tk. lookupCurrentEurekaHost cfg env k st = k (None, u, t) (st\<lparr>oauth_token := tk\<rparr>)
          \<and> ring_entry u = currentServiceUrl st"
  proof (cases "oAuth2Enabled cfg")
    case True
    define tk where "tk = (case token_result env of Inl e \<Rightarrow> oauth_token st | Inr t \<Rightarrow> t)"
    have "lookupCurrentEurekaHost cfg env k st
        = k (None, Static (currentServiceUrl st), Some tk) (st\<lparr>oauth_token := tk\<rparr>)"
      using False True by (simp add: lookupCurrentEurekaHost_def token_eq currentServiceUrl_def tk_def)
    moreover have "ring_entry (Static (currentServiceUrl st)) = currentServiceUrl st"
      by (simp add: ring_entry_def)
    ultimately show ?thesis by blast
  next
    case F2: False
    have "lookupCurrentEurekaHost cfg env k st
        = k (None, Static (currentServiceUrl st), None) (st\<lparr>oauth_token := oauth_token st\<rparr>)"
      using False F2 by (simp add: lookupCurrentEurekaHost_def)
    moreover have "ring_entry (Static (currentServiceUrl st)) = currentServiceUrl st"
      by (simp add: ring_entry_def)
    ultimately show ?thesis by blast
  qed
  then show ?thesis by blast
next
  case True
  define K where "K = (\<lambda>(err :: error option, resolvedHost) st1.
           if oAuth2Enabled cfg then
             getTokenForClientCredentials (token_result env)
               (\<lambda>(error, token) st2.
                  k (None, Formatted (currentServiceUrl st1) resolvedHost, Some token) st2)
               st1
           else k (None, Formatted (currentServiceUrl st1) resolvedHost, None) st1)"
  have L: "lookupCurrentEurekaHost cfg env k st = locateEurekaHostUsingDns cfg (dns env) K st"
    using True by (simp add: lookupCurrentEurekaHost_def K_def)
  have K: "\<exists>t tk. K (e, h) st
       = k (None, Formatted (currentServiceUrl st) h, t) (st\<lparr>oauth_token := tk\<rparr>)" for e h
  proof (cases "oAuth2Enabled cfg")
    case True
    then show ?thesis by (auto simp: K_def token_eq)
  next
    case False
    then have "K (e, h) st
        = k (None, Formatted (currentServiceUrl st) h, None) (st\<lparr>oauth_token := oauth_token st\<rparr>)"
      by (simp add: K_def)
    then show ?thesis by blast
  qed
  from locate_cases [of cfg "dns env" K st] show ?thesis
  proof (elim disjE exE)
    assume "locateEurekaHostUsingDns cfg (dns env) K st = (st, [Thrown TypeError])"
    with L show ?thesis by simp
  next
    fix e h assume "locateEurekaHostUsingDns cfg (dns env) K st = K (e, h) st"
    moreover have "ring_entry (Formatted (currentServiceUrl st) h) = currentServiceUrl st"
      by (simp add: ring_entry_def)
    ultimately show ?thesis using L K [of e h] by metis
  next
    fix e h assume "locateEurekaHostUsingDns cfg (dns env) K st = then_throw TypeError (K (e, h) st)"
    moreover have "ring_entry (Formatted (currentServiceUrl st) h) = currentServiceUrl st"
      by (simp add: ring_entry_def)
    ultimately show ?thesis using L K [of e h] by metis
  qed
qed

lemma then_throw_simps [simp]:
  "fst (then_throw e r) = fst r" "snd (then_throw e r) = snd r @ [Thrown e]"
  by (simp_all add: then_throw_def)

lemma setAuthorizationInHeader_fields [simp]:
  "verb (setAuthorizationInHeader rq t) = verb rq"
  "base (setAuthorizationInHeader rq t) = base rq"
  "path (setAuthorizationInHeader rq t) = path rq"
  by (simp_all add: setAuthorizationInHeader_def split: option.splits)

lemma aims_at_simps [simp]:
  "aims_at (rq\<lparr>base := v\<rparr>) u = (ring_entry v = u)"
  "aims_at (setAuthorizationInHeader rq t) u = aims_at rq u"
  by (simp_all add: aims_at_def)

lemma currentServiceUrl_frame [simp]:
  "currentServiceUrl (st\<lparr>oauth_token := tk\<rparr>) = currentServiceUrl st"
  "currentServiceUrl (st\<lparr>timers := ts\<rparr>) = currentServiceUrl st"
  "currentServiceUrl (st\<lparr>nextTimer := n\<rparr>) = currentServiceUrl st"
  "currentServiceUrl (st\<lparr>instance_status := x\<rparr>) = currentServiceUrl st"
  by (simp_all add: currentServiceUrl_def)

lemma invocations_simps [simp]:
  "invocations [] = []"
  "invocations (Invoke c e # evs) = (c, e) # invocations evs"
  "invocations (Sent r # evs) = invocations evs"
  "invocations (Emit n # evs) = invocations evs"
  "invocations (Thrown x # evs) = invocations evs"
  "invocations (evs @ evs') = invocations evs @ invocations evs'"
  by (simp_all add: invocations_def)

lemma requests_simps [simp]:
  "requests [] = []"
  "requests (Invoke c e # evs) = requests evs"
  "requests (Sent r # evs) = r # requests evs"
  "requests (Emit n # evs) = requests evs"
  "requests (Thrown x # evs) = requests evs"
  "requests (evs @ evs') = requests evs @ requests evs'"
  by (simp_all add: requests_def)

lemma signals_simps [simp]:
  "signals [] = []"
  "signals (Invoke c e # evs) = signals evs"
  "signals (Sent r # evs) = signals evs"
  "signals (Emit n # evs) = n # signals evs"
  "signals (Thrown x # evs) = signals evs"
  "signals (evs @ evs') = signals evs @ signals evs'"
  by (simp_all add: signals_def)

lemmas eval_defs = renew_def renew_response_def register_def register_response_def
  lookupCurrentEurekaHost_def setTimer_def clearTimer_def stopHeartbeats_def startHeartbeats_def
  rotateCurrentServiceUrl_def rotate_ring_Cons currentServiceUrl_def setAuthorizationInHeader_def
  Let_def

subsection \<open>Registration: one attempt\<close>

text \<open>
  Once the request of an attempt has gone out, the attempt is the callback of the request,
  run on the state the attempt prepared: status \<open>UP\<close>, the watchdog timer set.
\<close>

lemma register_issued:
  assumes run: "register cfg cb env st = (st', evs)" and sent: "Sent req0 \<in> set evs"
  shows "\<exists>tk rq thr.
           st' = fst (register_response cfg cb (nextTimer st) (reg_outcome env) (reg_random env)
                   (st\<lparr>instance_status := Some ''UP'',
                      timers := (timers st)(nextTimer st \<mapsto> (WarnSlowRegistration, 10000)),
                      nextTimer := Suc (nextTimer st), oauth_token := tk\<rparr>))
         \<and> evs = Sent rq # snd (register_response cfg cb (nextTimer st) (reg_outcome env) (reg_random env)
                   (st\<lparr>instance_status := Some ''UP'',
                      timers := (timers st)(nextTimer st \<mapsto> (WarnSlowRegistration, 10000)),
                      nextTimer := Suc (nextTimer st), oauth_token := tk\<rparr>)) @ thr
         \<and> (thr = [] \<or> thr = [Thrown TypeError])
         \<and> verb rq = POST \<and> aims_at rq (currentServiceUrl st)"
proof -
  define K where "K = (\<lambda>(err, eurekaUrl, token) s.
              case err of
                Some e \<Rightarrow> (s, [Invoke cb (Some e)])
              | None \<Rightarrow>
                  (let requestData = setAuthorizationInHeader
                         \<lparr>verb = POST, base = eurekaUrl, path = instance_app cfg,
                          headers = Map.empty\<rparr> token;
                       r = register_response cfg cb (nextTimer st)
                             (reg_outcome env) (reg_random env) s
                   in (fst r, Sent requestData # snd r)))"
  define s0 where "s0 = st\<lparr>instance_status := Some ''UP'',
                      timers := (timers st)(nextTimer st \<mapsto> (WarnSlowRegistration, 10000)),
                      nextTimer := Suc (nextTimer st)\<rparr>"
  define rq where "rq = (\<lambda>u t. setAuthorizationInHeader
      \<lparr>verb = POST, base = u, path = instance_app cfg, headers = Map.empty\<rparr> t)"
  have R: "register cfg cb env st = lookupCurrentEurekaHost cfg (reg_lookup env) K s0"
    by (simp add: register_def setTimer_def K_def s0_def Let_def cong del: option.case_cong_weak)
  have s0tk: "s0\<lparr>oauth_token := tk\<rparr> = st\<lparr>instance_status := Some ''UP'',
                      timers := (timers st)(nextTimer st \<mapsto> (WarnSlowRegistration, 10000)),
                      nextTimer := Suc (nextTimer st), oauth_token := tk\<rparr>" for tk
    by (simp add: s0_def)
  have cur: "currentServiceUrl s0 = currentServiceUrl st" by (simp add: s0_def)
  have Kv: "K (None, u, t) s =
      (fst (register_response cfg cb (nextTimer st) (reg_outcome env) (reg_random env) s),
       Sent (rq u t) # snd (register_response cfg cb (nextTimer st) (reg_outcome env) (reg_random env) s))"
    for u t s
    by (simp add: K_def Let_def rq_def)
  have aim: "verb (rq u t) = POST \<and> aims_at (rq u t) (currentServiceUrl st)"
    if "ring_entry u = currentServiceUrl s0" for u t
    using that by (simp add: rq_def aims_at_def cur)
  from lookup_cases [of cfg "reg_lookup env" K s0] show ?thesis
  proof (elim disjE exE conjE)
    assume "lookupCurrentEurekaHost cfg (reg_lookup env) K s0 = (s0, [Thrown TypeError])"
    with R run sent show ?thesis by auto
  next
    fix u t tk
    assume "lookupCurrentEurekaHost cfg (reg_lookup env) K s0 = K (None, u, t) (s0\<lparr>oauth_token := tk\<rparr>)"
      and u: "ring_entry u = currentServiceUrl s0"
    with R run have "K (None, u, t) (s0\<lparr>oauth_token := tk\<rparr>) = (st', evs)" by simp
    then have "st' = fst (K (None, u, t) (s0\<lparr>oauth_token := tk\<rparr>))"
       "evs = snd (K (None, u, t) (s0\<lparr>oauth_token := tk\<rparr>)) @ []" by simp_all
    then show ?thesis
      by (intro exI [of _ tk] exI [of _ "[]"] exI [of _ "rq u t"]) (simp add: Kv s0tk aim [OF u])
  next
    fix u t tk
    assume "lookupCurrentEurekaHost cfg (reg_lookup env) K s0
       = then_throw TypeError (K (None, u, t) (s0\<lparr>oauth_token := tk\<rparr>))"
      and u: "ring_entry u = currentServiceUrl s0"
    with R run have "then_throw TypeError (K (None, u, t) (s0\<lparr>oauth_token := tk\<rparr>)) = (st', evs)"
      by simp
    then have "st' = fst (K (None, u, t) (s0\<lparr>oauth_token := tk\<rparr>))"
       "evs = snd (K (None, u, t) (s0\<lparr>oauth_token := tk\<rparr>)) @ [Thrown TypeError]"
      by (simp_all add: then_throw_def)
    then show ?thesis
      by (intro exI [of _ tk] exI [of _ "[Thrown TypeError]"] exI [of _ "rq u t"])
         (simp add: Kv s0tk aim [OF u])
  qed
qed

lemma register_response_Failed:
  "register_response cfg cb wd (Failed e) rnd s =
     (s\<lparr>timers := ((timers s)(wd := None))(nextTimer s \<mapsto> (Register cb, nat \<lfloor>rnd * 2000\<rfloor>)),
        serviceUrl := rotate_ring (serviceUrl s),
        nextTimer := Suc (nextTimer s),
        reregisterTimeout := Some (nextTimer s)\<rparr>, [])"
  by (simp add: register_response_def clearTimer_def rotateCurrentServiceUrl_def setTimer_def)

lemma register_response_rejected:
  "sc \<noteq> 204 \<Longrightarrow> register_response cfg cb wd (Responded sc b) rnd s =
     (s\<lparr>timers := (timers s)(wd := None)\<rparr>, [Invoke cb (Some (RegistrationFailed sc b))])"
  by (simp add: register_response_def clearTimer_def)

lemma backoff_bound: "0 \<le> (r::real) \<Longrightarrow> r < 1 \<Longrightarrow> nat \<lfloor>r * 2000\<rfloor> < 2000"
  by (simp add: floor_less_iff nat_less_iff)

lemma register_failed_attempt:
  assumes out: "reg_outcome env = Failed e"
    and run: "register cfg cb env st = (st', evs)" and sent: "Sent req \<in> set evs"
  shows "serviceUrl st' = rotate_ring (serviceUrl st)"
    and "reregisterTimeout st' = Some (Suc (nextTimer st))"
    and "timers st' (Suc (nextTimer st)) = Some (Register cb, nat \<lfloor>reg_random env * 2000\<rfloor>)"
    and "invocations evs = []"
    and "\<exists>rq. requests evs = [rq] \<and> verb rq = POST \<and> aims_at rq (currentServiceUrl st)"
proof -
  from register_issued [OF run sent] obtain tk rq thr where
    st': "st' = fst (register_response cfg cb (nextTimer st) (reg_outcome env) (reg_random env)
                   (st\<lparr>instance_status := Some ''UP'',
                      timers := (timers st)(nextTimer st \<mapsto> (WarnSlowRegistration, 10000)),
                      nextTimer := Suc (nextTimer st), oauth_token := tk\<rparr>))"
    and evs: "evs = Sent rq # snd (register_response cfg cb (nextTimer st) (reg_outcome env) (reg_random env)
                   (st\<lparr>instance_status := Some ''UP'',
                      timers := (timers st)(nextTimer st \<mapsto> (WarnSlowRegistration, 10000)),
                      nextTimer := Suc (nextTimer st), oauth_token := tk\<rparr>)) @ thr"
    and thr: "thr = [] \<or> thr = [Thrown TypeError]"
    and tgt: "verb rq = POST" "aims_at rq (currentServiceUrl st)" by blast
  show "serviceUrl st' = rotate_ring (serviceUrl st)"
    by (simp add: st' out register_response_Failed)
  show "reregisterTimeout st' = Some (Suc (nextTimer st))"
    by (simp add: st' out register_response_Failed)
  show "timers st' (Suc (nextTimer st)) = Some (Register cb, nat \<lfloor>reg_random env * 2000\<rfloor>)"
    by (simp add: st' out register_response_Failed)
  show "invocations evs = []"
    using thr by (auto simp: evs out register_response_Failed)
  show "\<exists>rq. requests evs = [rq] \<and> verb rq = POST \<and> aims_at rq (currentServiceUrl st)"
    using thr tgt by (auto simp: evs out register_response_Failed)
qed

lemma register_rejected_attempt:
  assumes out: "reg_outcome env = Responded sc b" and sc: "sc \<noteq> 204"
    and run: "register cfg cb env st = (st', evs)" and sent: "Sent req \<in> set evs"
  shows "invocations evs = [(cb, Some (RegistrationFailed sc b))]"
    and "serviceUrl st' = serviceUrl st"
    and "reregisterTimeout st' = reregisterTimeout st"
    and "heartbeat st' = heartbeat st"
    and "timers st' = (timers st)(nextTimer st := None)"
proof -
  from register_issued [OF run sent] obtain tk rq thr where
    st': "st' = fst (register_response cfg cb (nextTimer st) (reg_outcome env) (reg_random env)
                   (st\<lparr>instance_status := Some ''UP'',
                      timers := (timers st)(nextTimer st \<mapsto> (WarnSlowRegistration, 10000)),
                      nextTimer := Suc (nextTimer st), oauth_token := tk\<rparr>))"
    and evs: "evs = Sent rq # snd (register_response cfg cb (nextTimer st) (reg_outcome env) (reg_random env)
                   (st\<lparr>instance_status := Some ''UP'',
                      timers := (timers st)(nextTimer st \<mapsto> (WarnSlowRegistration, 10000)),
                      nextTimer := Suc (nextTimer st), oauth_token := tk\<rparr>)) @ thr"
    and thr: "thr = [] \<or> thr = [Thrown TypeError]"
    and tgt: "verb rq = POST" "aims_at rq (currentServiceUrl st)" by blast
  show "invocations evs = [(cb, Some (RegistrationFailed sc b))]"
    using thr sc by (auto simp: evs out register_response_rejected)
  show "serviceUrl st' = serviceUrl st" using sc by (simp add: st' out register_response_rejected)
  show "reregisterTimeout st' = reregisterTimeout st" using sc by (simp add: st' out register_response_rejected)
  show "heartbeat st' = heartbeat st" using sc by (simp add: st' out register_response_rejected)
  show "timers st' = (timers st)(nextTimer st := None)" using sc by (simp add: st' out register_response_rejected)
qed

subsection \<open>Registration: the chain of retries\<close>

lemma register_static_sent:
  assumes "\<not> useDns cfg"
  shows "\<exists>rq rest. snd (register cfg cb env st) = Sent rq # rest"
proof (cases "oAuth2Enabled cfg")
  case True
  with assms show ?thesis
    by (simp add: register_def lookupCurrentEurekaHost_def token_eq setTimer_def Let_def)
next
  case False
  with assms show ?thesis
    by (simp add: register_def lookupCurrentEurekaHost_def setTimer_def Let_def)
qed

lemma run_reregister_failures:
  assumes "\<not> useDns cfg" and "\<forall>x \<in> set envs. \<exists>e. reg_outcome x = Failed e"
    and "reregisterTimeout st = Some h" and "timers st h = Some (Register cb, d)"
  shows "serviceUrl (fst (run_reregister cfg envs st)) = (rotate_ring ^^ length envs) (serviceUrl st)
       \<and> (\<exists>h' d'. reregisterTimeout (fst (run_reregister cfg envs st)) = Some h'
              \<and> timers (fst (run_reregister cfg envs st)) h' = Some (Register cb, d'))
       \<and> invocations (snd (run_reregister cfg envs st)) = []
       \<and> length (requests (snd (run_reregister cfg envs st))) = length envs"
  using assms(2-)
proof (induction envs arbitrary: st h d)
  case Nil
  then show ?case by simp
next
  case (Cons env envs)
  define s0 where "s0 = st\<lparr>timers := (timers st)(h := None)\<rparr>"
  define r1 where "r1 = register cfg cb env s0"
  obtain e where out: "reg_outcome env = Failed e" using Cons.prems(1) by auto
  obtain rq rest where "snd r1 = Sent rq # rest"
    using register_static_sent [OF assms(1)] unfolding r1_def by blast
  then have sent: "Sent rq \<in> set (snd r1)" by simp
  have run: "register cfg cb env s0 = (fst r1, snd r1)" by (simp add: r1_def)
  note A = register_failed_attempt [OF out run sent]
  have ring1: "serviceUrl (fst r1) = rotate_ring (serviceUrl st)"
    using A(1) by (simp add: s0_def)
  have IH: "serviceUrl (fst (run_reregister cfg envs (fst r1)))
        = (rotate_ring ^^ length envs) (serviceUrl (fst r1))
       \<and> (\<exists>h' d'. reregisterTimeout (fst (run_reregister cfg envs (fst r1))) = Some h'
              \<and> timers (fst (run_reregister cfg envs (fst r1))) h' = Some (Register cb, d'))
       \<and> invocations (snd (run_reregister cfg envs (fst r1))) = []
       \<and> length (requests (snd (run_reregister cfg envs (fst r1)))) = length envs"
    using Cons.IH [OF _ A(2) A(3)] Cons.prems(1) by simp
  have unfold: "run_reregister cfg (env # envs) st
      = (fst (run_reregister cfg envs (fst r1)), snd r1 @ snd (run_reregister cfg envs (fst r1)))"
    using Cons.prems(2,3) by (simp add: r1_def s0_def Let_def)
  show ?case
    unfolding unfold using IH A(4,5) by (auto simp: ring1 funpow_swap1)
qed

lemma deregister_state: "\<exists>tk. fst (deregister cfg c env s) = s\<lparr>oauth_token := tk\<rparr>"
proof -
  define K where "K = (\<lambda>(err, eurekaUrl, token) (s :: state).
          case err of
            Some e \<Rightarrow> (s, [Invoke c (Some e)])
          | None \<Rightarrow>
              (let requestData = setAuthorizationInHeader
                     \<lparr>verb = DELETE, base = eurekaUrl,
                      path = instance_app cfg @ ''/'' @ instanceId cfg, headers = Map.empty\<rparr> token
               in (s, Sent requestData #
                     (case dereg_outcome env of
                        Responded statusCode body \<Rightarrow>
                          (if statusCode = 200 then [Emit ''deregistered'', Invoke c None]
                           else [Invoke c (Some (DeregistrationFailed statusCode body))])
                      | Failed error \<Rightarrow> [Invoke c (Some (Foreign error))]))))"
  have D: "deregister cfg c env s = lookupCurrentEurekaHost cfg (dereg_lookup env) K s"
    by (simp add: deregister_def K_def)
  have K: "fst (K (None, u, t) s') = s'" for u t s'
    by (simp add: K_def Let_def)
  have same: "s\<lparr>oauth_token := oauth_token s\<rparr> = s" by simp
  from lookup_cases [of cfg "dereg_lookup env" K s] show ?thesis
  proof (elim disjE exE conjE)
    assume "lookupCurrentEurekaHost cfg (dereg_lookup env) K s = (s, [Thrown TypeError])"
    then have "fst (deregister cfg c env s) = s\<lparr>oauth_token := oauth_token s\<rparr>"
      using D by simp
    then show ?thesis by blast
  next
    fix u t tk
    assume "lookupCurrentEurekaHost cfg (dereg_lookup env) K s = K (None, u, t) (s\<lparr>oauth_token := tk\<rparr>)"
      and "ring_entry u = currentServiceUrl s"
    then have "fst (deregister cfg c env s) = s\<lparr>oauth_token := tk\<rparr>" using D K by simp
    then show ?thesis by blast
  next
    fix u t tk
    assume "lookupCurrentEurekaHost cfg (dereg_lookup env) K s
       = then_throw TypeError (K (None, u, t) (s\<lparr>oauth_token := tk\<rparr>))"
      and "ring_entry u = currentServiceUrl s"
    then have "fst (deregister cfg c env s) = s\<lparr>oauth_token := tk\<rparr>" using D K by simp
    then show ?thesis by blast
  qed
qed

lemma stop_cancels_retry:
  assumes "reregisterTimeout st = Some h"
  shows "run_reregister cfg envs (fst (stop cfg c denv st)) = (fst (stop cfg c denv st), [])"
proof -
  define s3 where "s3 = stopHeartbeats (clearTimer (reregisterTimeout (clearTimer (registryFetch st) st))
                           (clearTimer (registryFetch st) st))"
  have S: "stop cfg c denv st = deregister cfg c denv s3"
    by (simp add: stop_def s3_def Let_def)
  have r: "reregisterTimeout s3 = Some h"
    using assms by (simp add: s3_def stopHeartbeats_def clearTimer_def split: option.splits)
  have t: "timers s3 h = None"
    using assms by (simp add: s3_def stopHeartbeats_def clearTimer_def split: option.splits)
  obtain tk where "fst (deregister cfg c denv s3) = s3\<lparr>oauth_token := tk\<rparr>"
    using deregister_state by blast
  then have F: "reregisterTimeout (fst (stop cfg c denv st)) = Some h"
     "timers (fst (stop cfg c denv st)) h = None"
    using S r t by simp_all
  show ?thesis
    by (cases envs) (simp_all add: F)
qed

text \<open>
  C2.  A \<^verbatim>\<open>register()\<close> attempt whose request went out and ended in a transport error
  rotates the ring exactly once, leaves a retry behind whose delay is \<open>\<lfloor>r * 2000\<rfloor>\<close> for
  the number \<open>r\<close> drawn from \<open>[0, 1)\<close>, hence in \<open>[0, 2000)\<close>, and does not invoke the
  callback; when the retry fires, \<^verbatim>\<open>register(callback)\<close> runs again, with the same
  callback.  With static endpoints, however many
  attempts fail in a row, each rotates the ring once, sends one request, leaves the next
  retry behind and invokes no callback; after \<^verbatim>\<open>stop()\<close> no retry runs any more.
\<close>

theorem register_transport_failure:
  assumes "reg_outcome env = Failed e" and "0 \<le> reg_random env" and "reg_random env < 1"
    and "register cfg callback env st = (st', evs)" and "Sent req \<in> set evs"
  shows "serviceUrl st' = rotate_ring (serviceUrl st)
       \<and> (\<exists>h. reregisterTimeout st' = Some h
              \<and> timers st' h = Some (Register callback, nat \<lfloor>reg_random env * 2000\<rfloor>)
              \<and> (\<forall>next. run_reregister cfg [next] st'
                     = register cfg callback next (st'\<lparr>timers := (timers st')(h := None)\<rparr>)))
       \<and> nat \<lfloor>reg_random env * 2000\<rfloor> < 2000
       \<and> invocations evs = []
       \<and> (\<not> useDns cfg \<and> (\<forall>x \<in> set envs. \<exists>e. reg_outcome x = Failed e) \<longrightarrow>
            serviceUrl (fst (run_reregister cfg envs st'))
              = (rotate_ring ^^ Suc (length envs)) (serviceUrl st)
          \<and> (\<exists>h d. reregisterTimeout (fst (run_reregister cfg envs st')) = Some h
                 \<and> timers (fst (run_reregister cfg envs st')) h = Some (Register callback, d))
          \<and> invocations (snd (run_reregister cfg envs st')) = []
          \<and> length (requests (snd (run_reregister cfg envs st'))) = length envs)
       \<and> run_reregister cfg envs (fst (stop cfg c denv st')) = (fst (stop cfg c denv st'), [])"
proof -
  note A = register_failed_attempt [OF assms(1) assms(4) assms(5)]
  have chain: "serviceUrl (fst (run_reregister cfg envs st'))
              = (rotate_ring ^^ Suc (length envs)) (serviceUrl st)
          \<and> (\<exists>h d. reregisterTimeout (fst (run_reregister cfg envs st')) = Some h
                 \<and> timers (fst (run_reregister cfg envs st')) h = Some (Register callback, d))
          \<and> invocations (snd (run_reregister cfg envs st')) = []
          \<and> length (requests (snd (run_reregister cfg envs st'))) = length envs"
    if "\<not> useDns cfg" and "\<forall>x \<in> set envs. \<exists>e. reg_outcome x = Failed e"
    using run_reregister_failures [OF that A(2) A(3)] by (simp add: A(1) funpow_swap1)
  have "run_reregister cfg envs (fst (stop cfg c denv st')) = (fst (stop cfg c denv st'), [])"
    using A(2) by (rule stop_cancels_retry)
  moreover have "nat \<lfloor>reg_random env * 2000\<rfloor> < 2000"
    using assms(2,3) by (rule backoff_bound)
  moreover have "run_reregister cfg [next] st'
      = register cfg callback next (st'\<lparr>timers := (timers st')(Suc (nextTimer st) := None)\<rparr>)"
    for "next"
    by (simp add: A(2) A(3) Let_def)
  then have "\<exists>h. reregisterTimeout st' = Some h
              \<and> timers st' h = Some (Register callback, nat \<lfloor>reg_random env * 2000\<rfloor>)
              \<and> (\<forall>next. run_reregister cfg [next] st'
                     = register cfg callback next (st'\<lparr>timers := (timers st')(h := None)\<rparr>))"
    using A(2) A(3) by blast
  ultimately show ?thesis using A(1) A(4) chain by blast
qed

theorem register_transport_failure_witness:
  "reg_outcome env_refused = Failed ''ECONNREFUSED''
   \<and> 0 \<le> reg_random env_refused \<and> reg_random env_refused < 1
   \<and> (\<exists>req. Sent req \<in> set (snd (register cfg_static Caller env_refused st_fresh)))
   \<and> \<not> useDns cfg_static
   \<and> serviceUrl (fst (register cfg_static Caller env_refused st_fresh))
       = [Some ''http://eureka2/apps/'', Some ''http://eureka1/apps/'']
   \<and> invocations (snd (register cfg_static Caller env_refused st_fresh)) = []
   \<and> serviceUrl (fst (run_reregister cfg_static [env_refused, env_refused]
         (fst (register cfg_static Caller env_refused st_fresh))))
       = [Some ''http://eureka2/apps/'', Some ''http://eureka1/apps/'']
   \<and> length (requests (snd (run_reregister cfg_static [env_refused, env_refused]
         (fst (register cfg_static Caller env_refused st_fresh))))) = 2"
proof -
  have h1: "reg_outcome env_refused = Failed ''ECONNREFUSED''" by (simp add: env_refused_def)
  have h2: "0 \<le> reg_random env_refused" by (simp add: env_refused_def)
  have h3: "reg_random env_refused < 1" by (simp add: env_refused_def)
  have h4: "register cfg_static Caller env_refused st_fresh
      = (fst (register cfg_static Caller env_refused st_fresh),
         snd (register cfg_static Caller env_refused st_fresh))" by simp
  have h5: "Sent \<lparr>verb = POST, base = Static (Some ''http://eureka1/apps/''), path = ''orders'',
       headers = Map.empty\<rparr> \<in> set (snd (register cfg_static Caller env_refused st_fresh))"
    by (simp add: register_def lookupCurrentEurekaHost_def setTimer_def Let_def cfg_static_def st_fresh_def lookup_quiet_def env_refused_def
         currentServiceUrl_def setAuthorizationInHeader_def)
  have h6: "\<not> useDns cfg_static" by (simp add: cfg_static_def)
  have h7: "\<forall>x \<in> set [env_refused, env_refused]. \<exists>e. reg_outcome x = Failed e"
    by (simp add: env_refused_def)
  note T = register_transport_failure [OF h1 h2 h3 h4 h5, of "[env_refused, env_refused]"]
  have ring: "serviceUrl st_fresh = [Some ''http://eureka1/apps/'', Some ''http://eureka2/apps/'']"
    by (simp add: st_fresh_def)
  show ?thesis
    using T h1 h2 h3 h5 h6 h7
    by (auto simp: ring rotate_ring_Cons numeral_2_eq_2 numeral_3_eq_3)
qed

text \<open>
  C3.  A \<^verbatim>\<open>register()\<close> attempt that is answered with a status other than 204 invokes
  the callback once, with the registration error, in that attempt; the ring is as before,
  no retry is scheduled and no heartbeat is started.
\<close>

theorem register_rejected:
  assumes "reg_outcome env = Responded statusCode body" and "statusCode \<noteq> 204"
    and "register cfg callback env st = (st', evs)" and "Sent req \<in> set evs"
  shows "invocations evs = [(callback, Some (RegistrationFailed statusCode body))]
       \<and> serviceUrl st' = serviceUrl st
       \<and> reregisterTimeout st' = reregisterTimeout st
       \<and> (\<forall>h c d. timers st' h = Some (Register c, d) \<longrightarrow> timers st h = Some (Register c, d))
       \<and> heartbeat st' = heartbeat st
       \<and> (reregisterTimeout st = None \<longrightarrow> run_reregister cfg envs st' = (st', []))"
proof -
  note A = register_rejected_attempt [OF assms]
  have "\<forall>h c d. timers st' h = Some (Register c, d) \<longrightarrow> timers st h = Some (Register c, d)"
    by (simp add: A(5))
  moreover have "run_reregister cfg envs st' = (st', [])" if "reregisterTimeout st = None"
    using that A(3) by (cases envs) simp_all
  ultimately show ?thesis using A(1-4) by blast
qed

theorem register_rejected_witness:
  "reg_outcome env_rejected = Responded 500 ''busy'' \<and> (500::nat) \<noteq> 204
   \<and> (\<exists>req. Sent req \<in> set (snd (register cfg_static Caller env_rejected st_fresh)))
   \<and> invocations (snd (register cfg_static Caller env_rejected st_fresh))
       = [(Caller, Some (RegistrationFailed 500 ''busy''))]
   \<and> serviceUrl (fst (register cfg_static Caller env_rejected st_fresh)) = serviceUrl st_fresh
   \<and> reregisterTimeout (fst (register cfg_static Caller env_rejected st_fresh)) = None
   \<and> reregisterTimeout st_fresh = None
   \<and> run_reregister cfg_static [env_refused] (fst (register cfg_static Caller env_rejected st_fresh))
       = (fst (register cfg_static Caller env_rejected st_fresh), [])"
proof -
  have h1: "reg_outcome env_rejected = Responded 500 ''busy''" by (simp add: env_rejected_def)
  have h2: "(500::nat) \<noteq> 204" by simp
  have h3: "register cfg_static Caller env_rejected st_fresh
      = (fst (register cfg_static Caller env_rejected st_fresh),
         snd (register cfg_static Caller env_rejected st_fresh))" by simp
  have h4: "Sent \<lparr>verb = POST, base = Static (Some ''http://eureka1/apps/''), path = ''orders'',
       headers = Map.empty\<rparr> \<in> set (snd (register cfg_static Caller env_rejected st_fresh))"
    by (simp add: register_def lookupCurrentEurekaHost_def setTimer_def Let_def cfg_static_def st_fresh_def lookup_quiet_def env_rejected_def
         currentServiceUrl_def setAuthorizationInHeader_def)
  have h5: "reregisterTimeout st_fresh = None" by (simp add: st_fresh_def)
  note T = register_rejected [OF h1 h2 h3 h4, of "[env_refused]"]
  show ?thesis using T h1 h4 h5 by auto
qed

subsection \<open>Renewal\<close>

lemma renew_issued:
  assumes run: "renew cfg env st = (st', evs)" and sent: "Sent req0 \<in> set evs"
  shows "\<exists>tk rq thr.
           st' = fst (renew_response cfg (hb_outcome env) (hb_register env) (st\<lparr>oauth_token := tk\<rparr>))
         \<and> evs = Sent rq # snd (renew_response cfg (hb_outcome env) (hb_register env)
                                 (st\<lparr>oauth_token := tk\<rparr>)) @ thr
         \<and> (thr = [] \<or> thr = [Thrown TypeError])
         \<and> verb rq = PUT \<and> aims_at rq (currentServiceUrl st)"
proof -
  define K where "K = (\<lambda>(err :: error option, eurekaUrl, token) s.
          case err of
            Some e \<Rightarrow> (s, [])
          | None \<Rightarrow>
              (let requestData = setAuthorizationInHeader
                     \<lparr>verb = PUT, base = eurekaUrl,
                      path = instance_app cfg @ ''/'' @ instanceId cfg, headers = Map.empty\<rparr> token;
                   r = renew_response cfg (hb_outcome env) (hb_register env) s
               in (fst r, Sent requestData # snd r)))"
  define rq where "rq = (\<lambda>u t. setAuthorizationInHeader
      \<lparr>verb = PUT, base = u, path = instance_app cfg @ ''/'' @ instanceId cfg,
       headers = Map.empty\<rparr> t)"
  have R: "renew cfg env st = lookupCurrentEurekaHost cfg (hb_lookup env) K st"
    by (simp add: renew_def K_def)
  have Kv: "K (None, u, t) s =
      (fst (renew_response cfg (hb_outcome env) (hb_register env) s),
       Sent (rq u t) # snd (renew_response cfg (hb_outcome env) (hb_register env) s))" for u t s
    by (simp add: K_def Let_def rq_def)
  have aim: "verb (rq u t) = PUT \<and> aims_at (rq u t) (currentServiceUrl st)"
    if "ring_entry u = currentServiceUrl st" for u t
    using that by (simp add: rq_def aims_at_def)
  from lookup_cases [of cfg "hb_lookup env" K st] show ?thesis
  proof (elim disjE exE conjE)
    assume "lookupCurrentEurekaHost cfg (hb_lookup env) K st = (st, [Thrown TypeError])"
    with R run sent show ?thesis by auto
  next
    fix u t tk
    assume "lookupCurrentEurekaHost cfg (hb_lookup env) K st = K (None, u, t) (st\<lparr>oauth_token := tk\<rparr>)"
      and u: "ring_entry u = currentServiceUrl st"
    with R run have "K (None, u, t) (st\<lparr>oauth_token := tk\<rparr>) = (st', evs)" by simp
    then have "st' = fst (K (None, u, t) (st\<lparr>oauth_token := tk\<rparr>))"
       "evs = snd (K (None, u, t) (st\<lparr>oauth_token := tk\<rparr>)) @ []" by simp_all
    then show ?thesis
      by (intro exI [of _ tk] exI [of _ "[]"] exI [of _ "rq u t"]) (simp add: Kv aim [OF u])
  next
    fix u t tk
    assume "lookupCurrentEurekaHost cfg (hb_lookup env) K st
       = then_throw TypeError (K (None, u, t) (st\<lparr>oauth_token := tk\<rparr>))"
      and u: "ring_entry u = currentServiceUrl st"
    with R run have "then_throw TypeError (K (None, u, t) (st\<lparr>oauth_token := tk\<rparr>)) = (st', evs)"
      by simp
    then have "st' = fst (K (None, u, t) (st\<lparr>oauth_token := tk\<rparr>))"
       "evs = snd (K (None, u, t) (st\<lparr>oauth_token := tk\<rparr>)) @ [Thrown TypeError]"
      by (simp_all add: then_throw_def)
    then show ?thesis
      by (intro exI [of _ tk] exI [of _ "[Thrown TypeError]"] exI [of _ "rq u t"])
         (simp add: Kv aim [OF u])
  qed
qed

lemma requests_mem: "rq \<in> set (requests evs) \<longleftrightarrow> Sent rq \<in> set evs"
proof (induction evs)
  case Nil
  show ?case by simp
next
  case (Cons ev evs)
  then show ?case by (cases ev) auto
qed

lemma register_response_requests: "requests (snd (register_response cfg cb wd out rnd s)) = []"
  by (cases out) (simp_all add: register_response_def Let_def setTimer_def split: prod.splits)

lemma register_requests_target:
  assumes "rq \<in> set (requests (snd (register cfg cb env s)))"
  shows "verb rq = POST \<and> aims_at rq (currentServiceUrl s)"
proof -
  have run: "register cfg cb env s = (fst (register cfg cb env s), snd (register cfg cb env s))"
    by simp
  from assms have "Sent rq \<in> set (snd (register cfg cb env s))" by (simp add: requests_mem)
  from register_issued [OF run this] obtain tk rq' thr where
    evs: "snd (register cfg cb env s) = Sent rq' # snd (register_response cfg cb (nextTimer s)
        (reg_outcome env) (reg_random env) (s\<lparr>instance_status := Some ''UP'',
                      timers := (timers s)(nextTimer s \<mapsto> (WarnSlowRegistration, 10000)),
                      nextTimer := Suc (nextTimer s), oauth_token := tk\<rparr>)) @ thr"
    and thr: "thr = [] \<or> thr = [Thrown TypeError]"
    and tgt: "verb rq' = POST" "aims_at rq' (currentServiceUrl s)" by blast
  have "requests (snd (register cfg cb env s)) = [rq']"
    using thr by (auto simp: evs register_response_requests)
  with assms tgt show ?thesis by simp
qed

lemma stopHeartbeats_frame [simp]:
  "serviceUrl (stopHeartbeats s) = serviceUrl s"
  "currentServiceUrl (stopHeartbeats s) = currentServiceUrl s"
  "heartbeat s = Some h \<Longrightarrow> timers (stopHeartbeats s) h = None"
  by (simp_all add: stopHeartbeats_def clearTimer_def currentServiceUrl_def split: option.splits)

lemma rotateCurrentServiceUrl_frame [simp]:
  "serviceUrl (rotateCurrentServiceUrl s) = rotate_ring (serviceUrl s)"
  "timers (rotateCurrentServiceUrl s) = timers s"
  "heartbeat (rotateCurrentServiceUrl s) = heartbeat s"
  by (simp_all add: rotateCurrentServiceUrl_def)

lemma currentServiceUrl_rotate_frame [simp]:
  "currentServiceUrl (rotateCurrentServiceUrl (stopHeartbeats (s\<lparr>oauth_token := tk\<rparr>)))
     = currentServiceUrl (rotateCurrentServiceUrl s)"
  by (simp add: currentServiceUrl_def)

text \<open>
  C4.  A heartbeat whose request went out is decided by the answer to it.  On status 200
  the \<open>heartbeat\<close> signal is emitted and the client is as it was (the lookup before the
  request may have replaced the stored token, nothing else).  On status 404 the heartbeat
  timer is cleared and \<^verbatim>\<open>register()\<close> runs on the unrotated ring: its request goes to the
  same endpoint.  On a transport error or any other status the heartbeat timer is cleared,
  the ring is rotated once, and then \<^verbatim>\<open>register()\<close> runs: its request goes to the next
  endpoint.
\<close>

theorem renew_outcomes:
  assumes "renew cfg env st = (st', evs)" and "Sent req \<in> set evs"
  shows "\<exists>s put thr.
       (\<exists>tk. s = st\<lparr>oauth_token := tk\<rparr>) \<and> verb put = PUT \<and> aims_at put (currentServiceUrl st)
     \<and> (thr = [] \<or> thr = [Thrown TypeError])
     \<and> (\<forall>body. hb_outcome env = Responded 200 body \<longrightarrow>
           st' = s \<and> evs = Sent put # Emit ''heartbeat'' # thr)
     \<and> (\<forall>body. hb_outcome env = Responded 404 body \<longrightarrow>
           st' = fst (register cfg Noop (hb_register env) (stopHeartbeats s))
         \<and> evs = Sent put # snd (register cfg Noop (hb_register env) (stopHeartbeats s)) @ thr
         \<and> serviceUrl (stopHeartbeats s) = serviceUrl st
         \<and> (\<forall>h. heartbeat st = Some h \<longrightarrow> timers (stopHeartbeats s) h = None)
         \<and> (\<forall>rq \<in> set (requests (snd (register cfg Noop (hb_register env) (stopHeartbeats s)))).
               verb rq = POST \<and> aims_at rq (currentServiceUrl st)))
     \<and> (\<forall>e sc body. hb_outcome env = Failed e
             \<or> hb_outcome env = Responded sc body \<and> sc \<noteq> 200 \<and> sc \<noteq> 404 \<longrightarrow>
           st' = fst (register cfg Noop (hb_register env) (rotateCurrentServiceUrl (stopHeartbeats s)))
         \<and> evs = Sent put # snd (register cfg Noop (hb_register env)
                                   (rotateCurrentServiceUrl (stopHeartbeats s))) @ thr
         \<and> serviceUrl (rotateCurrentServiceUrl (stopHeartbeats s)) = rotate_ring (serviceUrl st)
         \<and> (\<forall>h. heartbeat st = Some h \<longrightarrow>
                timers (rotateCurrentServiceUrl (stopHeartbeats s)) h = None)
         \<and> (\<forall>rq \<in> set (requests (snd (register cfg Noop (hb_register env)
                                   (rotateCurrentServiceUrl (stopHeartbeats s))))).
               verb rq = POST \<and> aims_at rq (currentServiceUrl (rotateCurrentServiceUrl st))))"
proof -
  from renew_issued [OF assms] obtain tk put thr where
    st': "st' = fst (renew_response cfg (hb_outcome env) (hb_register env) (st\<lparr>oauth_token := tk\<rparr>))"
    and evs: "evs = Sent put # snd (renew_response cfg (hb_outcome env) (hb_register env)
                                 (st\<lparr>oauth_token := tk\<rparr>)) @ thr"
    and thr: "thr = [] \<or> thr = [Thrown TypeError]"
    and put: "verb put = PUT" "aims_at put (currentServiceUrl st)" by blast
  define s where "s = st\<lparr>oauth_token := tk\<rparr>"
  have ok: "st' = s \<and> evs = Sent put # Emit ''heartbeat'' # thr"
    if "hb_outcome env = Responded 200 body" for body
    using that by (simp add: st' evs renew_response_def s_def)
  have t404: "st' = fst (register cfg Noop (hb_register env) (stopHeartbeats s))
         \<and> evs = Sent put # snd (register cfg Noop (hb_register env) (stopHeartbeats s)) @ thr
         \<and> serviceUrl (stopHeartbeats s) = serviceUrl st
         \<and> (\<forall>h. heartbeat st = Some h \<longrightarrow> timers (stopHeartbeats s) h = None)
         \<and> (\<forall>rq \<in> set (requests (snd (register cfg Noop (hb_register env) (stopHeartbeats s)))).
               verb rq = POST \<and> aims_at rq (currentServiceUrl st))"
    if "hb_outcome env = Responded 404 body" for body
  proof -
    have "\<forall>rq \<in> set (requests (snd (register cfg Noop (hb_register env) (stopHeartbeats s)))).
               verb rq = POST \<and> aims_at rq (currentServiceUrl st)"
      using register_requests_target [of _ cfg Noop "hb_register env" "stopHeartbeats s"]
      by (simp add: s_def)
    then show ?thesis using that by (simp add: st' evs renew_response_def s_def)
  qed
  have other: "st' = fst (register cfg Noop (hb_register env) (rotateCurrentServiceUrl (stopHeartbeats s)))
         \<and> evs = Sent put # snd (register cfg Noop (hb_register env)
                                   (rotateCurrentServiceUrl (stopHeartbeats s))) @ thr
         \<and> serviceUrl (rotateCurrentServiceUrl (stopHeartbeats s)) = rotate_ring (serviceUrl st)
         \<and> (\<forall>h. heartbeat st = Some h \<longrightarrow>
                timers (rotateCurrentServiceUrl (stopHeartbeats s)) h = None)
         \<and> (\<forall>rq \<in> set (requests (snd (register cfg Noop (hb_register env)
                                   (rotateCurrentServiceUrl (stopHeartbeats s))))).
               verb rq = POST \<and> aims_at rq (currentServiceUrl (rotateCurrentServiceUrl st)))"
    if "hb_outcome env = Failed e \<or> hb_outcome env = Responded sc body \<and> sc \<noteq> 200 \<and> sc \<noteq> 404"
    for e sc body
  proof -
    have "\<forall>rq \<in> set (requests (snd (register cfg Noop (hb_register env)
                                   (rotateCurrentServiceUrl (stopHeartbeats s))))).
               verb rq = POST \<and> aims_at rq (currentServiceUrl (rotateCurrentServiceUrl st))"
      using register_requests_target [of _ cfg Noop "hb_register env"
               "rotateCurrentServiceUrl (stopHeartbeats s)"]
      by (simp add: s_def)
    then show ?thesis using that by (auto simp: st' evs renew_response_def s_def)
  qed
  have "\<exists>tk. s = st\<lparr>oauth_token := tk\<rparr>" by (auto simp: s_def)
  with put thr ok t404 other show ?thesis
    by (intro exI [of _ s] exI [of _ put] exI [of _ thr]) blast
qed

theorem renew_outcomes_witness:
  "(\<exists>req. Sent req \<in> set (snd (renew cfg_static hb_alive st_beating)))
   \<and> fst (renew cfg_static hb_alive st_beating) = st_beating
   \<and> signals (snd (renew cfg_static hb_alive st_beating)) = [''heartbeat'']
   \<and> (\<exists>req. Sent req \<in> set (snd (renew cfg_static hb_forgotten st_beating)))
   \<and> map (\<lambda>rq. (verb rq, base rq)) (requests (snd (renew cfg_static hb_forgotten st_beating)))
       = [(PUT, Static (Some ''http://eureka1/apps/'')), (POST, Static (Some ''http://eureka1/apps/''))]
   \<and> serviceUrl (fst (renew cfg_static hb_forgotten st_beating))
       = [Some ''http://eureka1/apps/'', Some ''http://eureka2/apps/'']
   \<and> timers (fst (renew cfg_static hb_forgotten st_beating)) 1 = None
   \<and> (\<exists>req. Sent req \<in> set (snd (renew cfg_static hb_unavailable st_beating)))
   \<and> map (\<lambda>rq. (verb rq, base rq)) (requests (snd (renew cfg_static hb_unavailable st_beating)))
       = [(PUT, Static (Some ''http://eureka1/apps/'')), (POST, Static (Some ''http://eureka2/apps/''))]
   \<and> serviceUrl (fst (renew cfg_static hb_unavailable st_beating))
       = [Some ''http://eureka2/apps/'', Some ''http://eureka1/apps/'']
   \<and> timers (fst (renew cfg_static hb_unavailable st_beating)) 1 = None"
proof -
  have run: "renew cfg_static e st_beating
      = (fst (renew cfg_static e st_beating), snd (renew cfg_static e st_beating))" for e
    by simp
  have s1: "Sent \<lparr>verb = PUT, base = Static (Some ''http://eureka1/apps/''),
       path = ''orders/orders-1'', headers = Map.empty\<rparr>
       \<in> set (snd (renew cfg_static hb_alive st_beating))"
    by (simp add: eval_defs cfg_static_def lookup_quiet_def env_accepted_def st_beating_def
          hb_alive_def hb_forgotten_def hb_unavailable_def)
  have s2: "Sent \<lparr>verb = PUT, base = Static (Some ''http://eureka1/apps/''),
       path = ''orders/orders-1'', headers = Map.empty\<rparr>
       \<in> set (snd (renew cfg_static hb_forgotten st_beating))"
    by (simp add: eval_defs cfg_static_def lookup_quiet_def env_accepted_def st_beating_def
          hb_alive_def hb_forgotten_def hb_unavailable_def)
  have s3: "Sent \<lparr>verb = PUT, base = Static (Some ''http://eureka1/apps/''),
       path = ''orders/orders-1'', headers = Map.empty\<rparr>
       \<in> set (snd (renew cfg_static hb_unavailable st_beating))"
    by (simp add: eval_defs cfg_static_def lookup_quiet_def env_accepted_def st_beating_def
          hb_alive_def hb_forgotten_def hb_unavailable_def)
  have c1: "fst (renew cfg_static hb_alive st_beating) = st_beating
     \<and> signals (snd (renew cfg_static hb_alive st_beating)) = [''heartbeat'']"
    by (simp add: eval_defs cfg_static_def lookup_quiet_def env_accepted_def st_beating_def
          hb_alive_def hb_forgotten_def hb_unavailable_def)
  have c2: "map (\<lambda>rq. (verb rq, base rq)) (requests (snd (renew cfg_static hb_forgotten st_beating)))
       = [(PUT, Static (Some ''http://eureka1/apps/'')), (POST, Static (Some ''http://eureka1/apps/''))]
   \<and> serviceUrl (fst (renew cfg_static hb_forgotten st_beating))
       = [Some ''http://eureka1/apps/'', Some ''http://eureka2/apps/'']
   \<and> timers (fst (renew cfg_static hb_forgotten st_beating)) 1 = None"
    by (simp add: eval_defs cfg_static_def lookup_quiet_def env_accepted_def st_beating_def
          hb_alive_def hb_forgotten_def hb_unavailable_def)
  have c3: "map (\<lambda>rq. (verb rq, base rq)) (requests (snd (renew cfg_static hb_unavailable st_beating)))
       = [(PUT, Static (Some ''http://eureka1/apps/'')), (POST, Static (Some ''http://eureka2/apps/''))]
   \<and> serviceUrl (fst (renew cfg_static hb_unavailable st_beating))
       = [Some ''http://eureka2/apps/'', Some ''http://eureka1/apps/'']
   \<and> timers (fst (renew cfg_static hb_unavailable st_beating)) 1 = None"
    by (simp add: eval_defs cfg_static_def lookup_quiet_def env_accepted_def st_beating_def
          hb_alive_def hb_forgotten_def hb_unavailable_def)
  note T1 = renew_outcomes [OF run s1]
  note T2 = renew_outcomes [OF run s2]
  note T3 = renew_outcomes [OF run s3]
  have W: ?thesis
    using s1 s2 s3 c1 c2 c3 by blast
  from T1 T2 T3 show ?thesis by - (rule W)
qed

subsection \<open>Registry fetch\<close>

lemma fetch_cases:
  "fetchRegistry cfg cb env st = (st, [Thrown TypeError])
   \<or> (\<exists>tk rq thr.
         fst (fetchRegistry cfg cb env st)
           = fst (fetch_response cfg cb (fetch_outcome env) (st\<lparr>oauth_token := tk\<rparr>))
       \<and> snd (fetchRegistry cfg cb env st)
           = Sent rq # snd (fetch_response cfg cb (fetch_outcome env) (st\<lparr>oauth_token := tk\<rparr>)) @ thr
       \<and> (thr = [] \<or> thr = [Thrown TypeError])
       \<and> verb rq = GET \<and> aims_at rq (currentServiceUrl st))"
proof -
  define K where "K = (\<lambda>(err, eurekaUrl, token) s.
          case err of
            Some e \<Rightarrow> (s, [Invoke cb (Some e)])
          | None \<Rightarrow>
              (let requestData = setAuthorizationInHeader
                     \<lparr>verb = GET, base = eurekaUrl, path = [],
                      headers = [''Accept'' \<mapsto> ''application/json'']\<rparr> token;
                   r = fetch_response cfg cb (fetch_outcome env) s
               in (fst r, Sent requestData # snd r)))"
  define rq where "rq = (\<lambda>u t. setAuthorizationInHeader
      \<lparr>verb = GET, base = u, path = [], headers = [''Accept'' \<mapsto> ''application/json'']\<rparr> t)"
  have R: "fetchRegistry cfg cb env st = lookupCurrentEurekaHost cfg (fetch_lookup env) K st"
    by (simp add: fetchRegistry_def K_def)
  have Kv: "K (None, u, t) s =
      (fst (fetch_response cfg cb (fetch_outcome env) s),
       Sent (rq u t) # snd (fetch_response cfg cb (fetch_outcome env) s))" for u t s
    by (simp add: K_def Let_def rq_def)
  have aim: "verb (rq u t) = GET \<and> aims_at (rq u t) (currentServiceUrl st)"
    if "ring_entry u = currentServiceUrl st" for u t
    using that by (simp add: rq_def aims_at_def)
  from lookup_cases [of cfg "fetch_lookup env" K st] show ?thesis
  proof (elim disjE exE conjE)
    assume "lookupCurrentEurekaHost cfg (fetch_lookup env) K st = (st, [Thrown TypeError])"
    with R show ?thesis by simp
  next
    fix u t tk
    assume "lookupCurrentEurekaHost cfg (fetch_lookup env) K st = K (None, u, t) (st\<lparr>oauth_token := tk\<rparr>)"
      and u: "ring_entry u = currentServiceUrl st"
    with R have "fetchRegistry cfg cb env st = K (None, u, t) (st\<lparr>oauth_token := tk\<rparr>)" by simp
    then have "\<exists>tk rq thr.
         fst (fetchRegistry cfg cb env st)
           = fst (fetch_response cfg cb (fetch_outcome env) (st\<lparr>oauth_token := tk\<rparr>))
       \<and> snd (fetchRegistry cfg cb env st)
           = Sent rq # snd (fetch_response cfg cb (fetch_outcome env) (st\<lparr>oauth_token := tk\<rparr>)) @ thr
       \<and> (thr = [] \<or> thr = [Thrown TypeError])
       \<and> verb rq = GET \<and> aims_at rq (currentServiceUrl st)"
      by (intro exI [of _ tk] exI [of _ "[]"] exI [of _ "rq u t"]) (simp add: Kv aim [OF u])
    then show ?thesis by blast
  next
    fix u t tk
    assume "lookupCurrentEurekaHost cfg (fetch_lookup env) K st
       = then_throw TypeError (K (None, u, t) (st\<lparr>oauth_token := tk\<rparr>))"
      and u: "ring_entry u = currentServiceUrl st"
    with R have "fetchRegistry cfg cb env st
       = then_throw TypeError (K (None, u, t) (st\<lparr>oauth_token := tk\<rparr>))" by simp
    then have "\<exists>tk rq thr.
         fst (fetchRegistry cfg cb env st)
           = fst (fetch_response cfg cb (fetch_outcome env) (st\<lparr>oauth_token := tk\<rparr>))
       \<and> snd (fetchRegistry cfg cb env st)
           = Sent rq # snd (fetch_response cfg cb (fetch_outcome env) (st\<lparr>oauth_token := tk\<rparr>)) @ thr
       \<and> (thr = [] \<or> thr = [Thrown TypeError])
       \<and> verb rq = GET \<and> aims_at rq (currentServiceUrl st)"
      by (intro exI [of _ tk] exI [of _ "[Thrown TypeError]"] exI [of _ "rq u t"])
         (simp add: Kv aim [OF u])
    then show ?thesis by blast
  qed
qed


lemma fetch_response_parsed:
  "fetch_response cfg cb (Responded 200 (Parsed reg)) s
     = (s\<lparr>cache := transformRegistry cfg reg (cache s)\<rparr>,
        [Emit ''registryUpdated'', Invoke cb None])"
  by (simp add: fetch_response_def)


lemma fetch_parsed_issued:
  assumes run: "fetchRegistry cfg cb env st = (st', evs)" and sent: "Sent req \<in> set evs"
    and out: "fetch_outcome env = Responded 200 body"
  shows "\<exists>tk rq thr.
           st' = fst (fetch_response cfg cb (Responded 200 body) (st\<lparr>oauth_token := tk\<rparr>))
         \<and> evs = Sent rq # snd (fetch_response cfg cb (Responded 200 body) (st\<lparr>oauth_token := tk\<rparr>)) @ thr
         \<and> (thr = [] \<or> thr = [Thrown TypeError])"
proof -
  have fs: "fst (fetchRegistry cfg cb env st) = st'" "snd (fetchRegistry cfg cb env st) = evs"
    using run by simp_all
  from fetch_cases [of cfg cb env st] consider
      (threw) "fetchRegistry cfg cb env st = (st, [Thrown TypeError])"
    | (sent) tk rq thr where
        "fst (fetchRegistry cfg cb env st)
           = fst (fetch_response cfg cb (fetch_outcome env) (st\<lparr>oauth_token := tk\<rparr>))"
        "snd (fetchRegistry cfg cb env st)
           = Sent rq # snd (fetch_response cfg cb (fetch_outcome env) (st\<lparr>oauth_token := tk\<rparr>)) @ thr"
        "thr = [] \<or> thr = [Thrown TypeError]"
    by blast
  then show ?thesis
  proof cases
    case threw
    with run sent show ?thesis by auto
  next
    case (sent tk rq thr)
    then show ?thesis unfolding fs out by blast
  qed
qed

lemmas fetch_eval_defs = fetchRegistry_def fetch_response_def transformRegistry_def
  transformApp_def validateInstance_def status_of_def vipAddress_of_def prop_key_def
  toUpperCase_def upper_char_def empty_cache_def




text \<open>
  C10, as stated, fails: a fetch answered with status 200 and a payload whose
  \<^verbatim>\<open>application\<close> is the empty array (no application entry) does not leave the cache
  as it was.  The empty array is truthy, so the new cache is built, stays empty, and
  replaces the old one: the entries the client held are gone.  The signal and the
  callback are as the claim says.
\<close>

theorem fetchRegistry_empty_array_counterexample:
  "fetch_outcome fetch_no_entries = Responded 200 (Parsed (Some \<lparr>applications = \<lparr>application =
       Some (AppArray [])\<rparr>\<rparr>))
   \<and> requests (snd (fetchRegistry cfg_static Caller fetch_no_entries st_cached))
       = [\<lparr>verb = GET, base = Static (Some ''http://eureka1/apps/''), path = [],
           headers = [''Accept'' \<mapsto> ''application/json'']\<rparr>]
   \<and> app (cache st_cached) ''ORDERS'' = Some [Obj inst_a]
   \<and> vip (cache st_cached) ''orders-vip'' = Some [Obj inst_a]
   \<and> cache (fst (fetchRegistry cfg_static Caller fetch_no_entries st_cached)) = empty_cache
   \<and> app (cache (fst (fetchRegistry cfg_static Caller fetch_no_entries st_cached))) ''ORDERS'' = None
   \<and> vip (cache (fst (fetchRegistry cfg_static Caller fetch_no_entries st_cached))) ''orders-vip''
       = None
   \<and> signals (snd (fetchRegistry cfg_static Caller fetch_no_entries st_cached))
       = [''registryUpdated'']
   \<and> invocations (snd (fetchRegistry cfg_static Caller fetch_no_entries st_cached))
       = [(Caller, None)]"
  by (simp add: eval_defs fetch_eval_defs cfg_static_def lookup_quiet_def st_beating_def
        st_cached_def fetch_no_entries_def)

text \<open>
  C10, amended.  A fetch that is answered with status 200 and a body that parses to
  nothing (\<^verbatim>\<open>null\<close>), or to a registry whose \<^verbatim>\<open>applications\<close> has no \<^verbatim>\<open>application\<close>
  property, leaves both mappings of the cache as they were, and still emits
  \<open>registryUpdated\<close> and invokes the callback without an error.  When \<^verbatim>\<open>application\<close> is the
  empty array the empty new cache is installed, with the same signal and callback.  A
  body that is not falsy and has no \<^verbatim>\<open>applications\<close> makes \<^verbatim>\<open>transformRegistry\<close> throw: the
  cache is as before, and neither the signal nor the callback follows.
\<close>

theorem fetchRegistry_empty_payload:
  assumes "fetchRegistry cfg callback env st = (st', evs)" and "Sent req \<in> set evs"
  shows "(\<forall>reg. fetch_outcome env = Responded 200 (Parsed reg)
             \<and> (reg = None \<or> (\<exists>r. reg = Some r \<and> application (applications r) = None)) \<longrightarrow>
           cache st' = cache st \<and> app (cache st') = app (cache st) \<and> vip (cache st') = vip (cache st)
         \<and> signals evs = [''registryUpdated''] \<and> invocations evs = [(callback, None)])
       \<and> (\<forall>r. fetch_outcome env = Responded 200 (Parsed (Some r))
             \<and> application (applications r) = Some (AppArray []) \<longrightarrow>
           cache st' = empty_cache \<and> app (cache st') = Map.empty \<and> vip (cache st') = Map.empty
         \<and> signals evs = [''registryUpdated''] \<and> invocations evs = [(callback, None)])
       \<and> (fetch_outcome env = Responded 200 NoApplications \<longrightarrow>
           cache st' = cache st \<and> signals evs = [] \<and> invocations evs = []
         \<and> Thrown TypeError \<in> set evs)"
proof -
  have a: "cache st' = cache st \<and> app (cache st') = app (cache st) \<and> vip (cache st') = vip (cache st)
         \<and> signals evs = [''registryUpdated''] \<and> invocations evs = [(callback, None)]"
    if o: "fetch_outcome env = Responded 200 (Parsed reg)"
      and e: "reg = None \<or> (\<exists>r. reg = Some r \<and> application (applications r) = None)" for reg
  proof -
    have T: "transformRegistry cfg reg c = c" for c
      using e by (auto simp: transformRegistry_def)
    from fetch_parsed_issued [OF assms o] obtain tk rq thr where
      "st' = fst (fetch_response cfg callback (Responded 200 (Parsed reg)) (st\<lparr>oauth_token := tk\<rparr>))"
      "evs = Sent rq # snd (fetch_response cfg callback (Responded 200 (Parsed reg))
                               (st\<lparr>oauth_token := tk\<rparr>)) @ thr"
      "thr = [] \<or> thr = [Thrown TypeError]" by blast
    then show ?thesis by (auto simp: fetch_response_parsed T)
  qed
  have b: "cache st' = empty_cache \<and> app (cache st') = Map.empty \<and> vip (cache st') = Map.empty
         \<and> signals evs = [''registryUpdated''] \<and> invocations evs = [(callback, None)]"
    if o: "fetch_outcome env = Responded 200 (Parsed (Some r))"
      and e: "application (applications r) = Some (AppArray [])" for r
  proof -
    have T: "transformRegistry cfg (Some r) c = empty_cache" for c
      using e by (simp add: transformRegistry_def)
    from fetch_parsed_issued [OF assms o] obtain tk rq thr where
      "st' = fst (fetch_response cfg callback (Responded 200 (Parsed (Some r))) (st\<lparr>oauth_token := tk\<rparr>))"
      "evs = Sent rq # snd (fetch_response cfg callback (Responded 200 (Parsed (Some r)))
                               (st\<lparr>oauth_token := tk\<rparr>)) @ thr"
      "thr = [] \<or> thr = [Thrown TypeError]" by blast
    then show ?thesis by (auto simp: fetch_response_parsed T empty_cache_def)
  qed
  have c: "cache st' = cache st \<and> signals evs = [] \<and> invocations evs = []
         \<and> Thrown TypeError \<in> set evs"
    if o: "fetch_outcome env = Responded 200 NoApplications"
  proof -
    from fetch_parsed_issued [OF assms o] obtain tk rq thr where
      "st' = fst (fetch_response cfg callback (Responded 200 NoApplications) (st\<lparr>oauth_token := tk\<rparr>))"
      "evs = Sent rq # snd (fetch_response cfg callback (Responded 200 NoApplications)
                               (st\<lparr>oauth_token := tk\<rparr>)) @ thr"
      "thr = [] \<or> thr = [Thrown TypeError]" by blast
    then show ?thesis by (auto simp: fetch_response_def)
  qed
  from a b c show ?thesis by blast
qed

theorem fetchRegistry_empty_payload_witness:
  "(\<exists>req. Sent req \<in> set (snd (fetchRegistry cfg_static Caller fetch_null st_cached)))
   \<and> fetch_outcome fetch_null = Responded 200 (Parsed None)
   \<and> cache (fst (fetchRegistry cfg_static Caller fetch_null st_cached)) = cache st_cached
   \<and> signals (snd (fetchRegistry cfg_static Caller fetch_null st_cached)) = [''registryUpdated'']
   \<and> invocations (snd (fetchRegistry cfg_static Caller fetch_null st_cached)) = [(Caller, None)]
   \<and> (\<exists>req. Sent req \<in> set (snd (fetchRegistry cfg_static Caller fetch_no_application st_cached)))
   \<and> fetch_outcome fetch_no_application
       = Responded 200 (Parsed (Some \<lparr>applications = \<lparr>application = None\<rparr>\<rparr>))
   \<and> cache (fst (fetchRegistry cfg_static Caller fetch_no_application st_cached)) = cache st_cached
   \<and> signals (snd (fetchRegistry cfg_static Caller fetch_no_application st_cached))
       = [''registryUpdated'']
   \<and> invocations (snd (fetchRegistry cfg_static Caller fetch_no_application st_cached))
       = [(Caller, None)]
   \<and> (\<exists>req. Sent req \<in> set (snd (fetchRegistry cfg_static Caller fetch_no_entries st_cached)))
   \<and> fetch_outcome fetch_no_entries
       = Responded 200 (Parsed (Some \<lparr>applications = \<lparr>application = Some (AppArray [])\<rparr>\<rparr>))
   \<and> cache (fst (fetchRegistry cfg_static Caller fetch_no_entries st_cached)) = empty_cache
   \<and> signals (snd (fetchRegistry cfg_static Caller fetch_no_entries st_cached))
       = [''registryUpdated'']
   \<and> (\<exists>req. Sent req \<in> set (snd (fetchRegistry cfg_static Caller
         (fetch_null\<lparr>fetch_outcome := Responded 200 NoApplications\<rparr>) st_cached)))
   \<and> cache (fst (fetchRegistry cfg_static Caller
         (fetch_null\<lparr>fetch_outcome := Responded 200 NoApplications\<rparr>) st_cached)) = cache st_cached
   \<and> invocations (snd (fetchRegistry cfg_static Caller
         (fetch_null\<lparr>fetch_outcome := Responded 200 NoApplications\<rparr>) st_cached)) = []"
proof -
  have run: "fetchRegistry cfg_static Caller e st_cached
      = (fst (fetchRegistry cfg_static Caller e st_cached),
         snd (fetchRegistry cfg_static Caller e st_cached))" for e
    by simp
  have s: "Sent \<lparr>verb = GET, base = Static (Some ''http://eureka1/apps/''), path = [],
       headers = [''Accept'' \<mapsto> ''application/json'']\<rparr>
       \<in> set (snd (fetchRegistry cfg_static Caller e st_cached))" for e
    by (cases "fetch_outcome e")
       (simp_all add: eval_defs fetch_eval_defs cfg_static_def lookup_quiet_def st_beating_def
          st_cached_def)
  note T1 = fetchRegistry_empty_payload [OF run s, of fetch_null]
  note T2 = fetchRegistry_empty_payload [OF run s, of fetch_no_application]
  note T3 = fetchRegistry_empty_payload [OF run s, of fetch_no_entries]
  note T4 = fetchRegistry_empty_payload [OF run s,
              of "fetch_null\<lparr>fetch_outcome := Responded 200 NoApplications\<rparr>"]
  have c: "fetch_outcome fetch_null = Responded 200 (Parsed None)
   \<and> cache (fst (fetchRegistry cfg_static Caller fetch_null st_cached)) = cache st_cached
   \<and> signals (snd (fetchRegistry cfg_static Caller fetch_null st_cached)) = [''registryUpdated'']
   \<and> invocations (snd (fetchRegistry cfg_static Caller fetch_null st_cached)) = [(Caller, None)]
   \<and> fetch_outcome fetch_no_application
       = Responded 200 (Parsed (Some \<lparr>applications = \<lparr>application = None\<rparr>\<rparr>))
   \<and> cache (fst (fetchRegistry cfg_static Caller fetch_no_application st_cached)) = cache st_cached
   \<and> signals (snd (fetchRegistry cfg_static Caller fetch_no_application st_cached))
       = [''registryUpdated'']
   \<and> invocations (snd (fetchRegistry cfg_static Caller fetch_no_application st_cached))
       = [(Caller, None)]
   \<and> fetch_outcome fetch_no_entries
       = Responded 200 (Parsed (Some \<lparr>applications = \<lparr>application = Some (AppArray [])\<rparr>\<rparr>))
   \<and> cache (fst (fetchRegistry cfg_static Caller fetch_no_entries st_cached)) = empty_cache
   \<and> signals (snd (fetchRegistry cfg_static Caller fetch_no_entries st_cached))
       = [''registryUpdated'']
   \<and> cache (fst (fetchRegistry cfg_static Caller
         (fetch_null\<lparr>fetch_outcome := Responded 200 NoApplications\<rparr>) st_cached)) = cache st_cached
   \<and> invocations (snd (fetchRegistry cfg_static Caller
         (fetch_null\<lparr>fetch_outcome := Responded 200 NoApplications\<rparr>) st_cached)) = []"
    by (simp add: eval_defs fetch_eval_defs cfg_static_def lookup_quiet_def st_beating_def
          st_cached_def fetch_null_def fetch_no_application_def fetch_no_entries_def)
  have W: ?thesis
    using s [of fetch_null] s [of fetch_no_application] s [of fetch_no_entries]
      s [of "fetch_null\<lparr>fetch_outcome := Responded 200 NoApplications\<rparr>"] c
    by blast
  from T1 T2 T3 T4 show ?thesis by - (rule W)
qed

subsection \<open>Registry transform\<close>

lemmas transform_defs = transformApp_def validateInstance_def status_of_def vipAddress_of_def
  prop_key_def toUpperCase_def upper_char_def empty_cache_def Let_def

lemma transformApp_entry:
  "transformApp cfg a c =
     (case entry_instances cfg a of
        None \<Rightarrow> c
      | Some instances \<Rightarrow>
          c\<lparr>app := (app c)(toUpperCase (app_name a) \<mapsto> instances),
            vip := (vip c)(entry_vip_key a \<mapsto> instances)\<rparr>)"
  by (simp add: transformApp_def entry_instances_def entry_vip_key_def Let_def
        split: instance_json.splits list.splits)

lemma transformApp_app:
  "app (transformApp cfg a c) k =
     (if entry_instances cfg a \<noteq> None \<and> toUpperCase (app_name a) = k
      then entry_instances cfg a else app c k)"
  by (auto simp: transformApp_entry split: option.splits)

lemma transformApp_vip:
  "vip (transformApp cfg a c) k =
     (if entry_instances cfg a \<noteq> None \<and> entry_vip_key a = k
      then entry_instances cfg a else vip c k)"
  by (auto simp: transformApp_entry split: option.splits)

lemma foldl_transformApp_app:
  "app (foldl (\<lambda>newCache a. transformApp cfg a newCache) c0 as) k =
     (case filter (\<lambda>a. entry_instances cfg a \<noteq> None \<and> toUpperCase (app_name a) = k) (rev as) of
        [] \<Rightarrow> app c0 k
      | a # earlier \<Rightarrow> entry_instances cfg a)"
proof (induction as rule: rev_induct)
  case Nil
  show ?case by simp
next
  case (snoc a as)
  then show ?case by (simp add: transformApp_app)
qed

lemma foldl_transformApp_vip:
  "vip (foldl (\<lambda>newCache a. transformApp cfg a newCache) c0 as) k =
     (case filter (\<lambda>a. entry_instances cfg a \<noteq> None \<and> entry_vip_key a = k) (rev as) of
        [] \<Rightarrow> vip c0 k
      | a # earlier \<Rightarrow> entry_instances cfg a)"
proof (induction as rule: rev_induct)
  case Nil
  show ?case by simp
next
  case (snoc a as)
  then show ?case by (simp add: transformApp_vip)
qed

lemma installed_cache:
  assumes "application (applications r) = Some apps"
  shows "app (transformRegistry cfg (Some r) old) k
           = last_stored cfg (\<lambda>a. toUpperCase (app_name a)) (entries apps) k"
    and "vip (transformRegistry cfg (Some r) old) k = last_stored cfg entry_vip_key (entries apps) k"
proof -
  have T: "transformRegistry cfg (Some r) old
      = foldl (\<lambda>newCache a. transformApp cfg a newCache) empty_cache (entries apps)"
    using assms by (cases apps) (simp_all add: transformRegistry_def entries_def)
  show "app (transformRegistry cfg (Some r) old) k
           = last_stored cfg (\<lambda>a. toUpperCase (app_name a)) (entries apps) k"
    by (simp add: T foldl_transformApp_app last_stored_def empty_cache_def split: list.splits)
  show "vip (transformRegistry cfg (Some r) old) k = last_stored cfg entry_vip_key (entries apps) k"
    by (simp add: T foldl_transformApp_vip last_stored_def empty_cache_def split: list.splits)
qed

lemma last_stored_at:
  assumes "as = xs @ a # ys" and "entry_instances cfg a = Some instances"
    and "\<forall>b \<in> set ys. entry_instances cfg b \<noteq> None \<longrightarrow> key b \<noteq> key a"
  shows "last_stored cfg key as (key a) = Some instances"
proof -
  have "filter (\<lambda>b. entry_instances cfg b \<noteq> None \<and> key b = key a) (rev ys) = []"
    using assms(3) by (auto simp: filter_empty_conv)
  then show ?thesis
    using assms(1,2) by (simp add: last_stored_def)
qed

lemma transformApp_Arr:
  "app_instance a = Arr (i0 # rest) \<Longrightarrow>
     transformApp cfg a c =
       c\<lparr>app := (app c)(toUpperCase (app_name a) \<mapsto> filter (validateInstance cfg) (map Obj (i0 # rest))),
         vip := (vip c)(vipAddress i0 \<mapsto> filter (validateInstance cfg) (map Obj (i0 # rest)))\<rparr>"
  by (simp add: transformApp_def prop_key_def Let_def)

lemma transformApp_Obj:
  "app_instance a = Obj i \<Longrightarrow>
     transformApp cfg a c =
       (if validateInstance cfg (Obj i)
        then c\<lparr>app := (app c)(toUpperCase (app_name a) \<mapsto> [Obj i]),
               vip := (vip c)(vipAddress i \<mapsto> [Obj i])\<rparr>
        else c)"
  by (simp add: transformApp_def prop_key_def vipAddress_of_def Let_def)

text \<open>
  C5, as stated, fails: an application whose two instances advertise different VIP
  addresses is cached under the VIP address of the first instance only; the second
  instance is in the list and nothing is cached under its own VIP address.
\<close>

theorem transformApp_vip_counterexample:
  "app (transformApp cfg_static orders_two_vips empty_cache) ''ORDERS'' = Some [Obj inst_a, Obj inst_b]
   \<and> vipAddress inst_b = ''orders-v2''
   \<and> vip (transformApp cfg_static orders_two_vips empty_cache) ''orders-v2'' = None
   \<and> vip (transformApp cfg_static orders_two_vips empty_cache) ''orders-vip''
       = Some [Obj inst_a, Obj inst_b]"
  by (simp add: transform_defs cfg_static_def orders_two_vips_def inst_a_def inst_b_def)

text \<open>
  C5, amended.  After a fetch that is answered with status 200 and a payload with an
  \<^verbatim>\<open>application\<close> entry, the cache is determined entry by entry.  An entry stores one
  array: for a non-empty instance array the instances that pass \<^verbatim>\<open>validateInstance\<close>, for
  a single instance object that passes the one-element array, for one that does not
  pass nothing (an empty instance array is treated like a single object).  It stores it
  under its upper-cased name and under one VIP key, the VIP address of the first
  instance of the array as sent, or of the single instance.  Under every key the
  installed cache holds the array of the last entry of the payload that stores under
  that key.  So the array of an entry is found under its name, or under its VIP key,
  when no later entry stores under the same; and an instance of that array is found
  under its own VIP address when that is the VIP key of its entry and no later entry
  stores under it.
\<close>

theorem installed_cache_index:
  assumes "fetchRegistry cfg callback env st = (st', evs)" and "Sent req \<in> set evs"
    and "fetch_outcome env = Responded 200 (Parsed (Some r))"
    and "application (applications r) = Some apps"
  shows "(\<forall>k. app (cache st') k = last_stored cfg (\<lambda>a. toUpperCase (app_name a)) (entries apps) k)
       \<and> (\<forall>k. vip (cache st') k = last_stored cfg entry_vip_key (entries apps) k)
       \<and> (\<forall>xs a ys instances.
             entries apps = xs @ a # ys \<and> entry_instances cfg a = Some instances \<longrightarrow>
               ((\<forall>b \<in> set ys. entry_instances cfg b \<noteq> None \<longrightarrow>
                     toUpperCase (app_name b) \<noteq> toUpperCase (app_name a)) \<longrightarrow>
                  app (cache st') (toUpperCase (app_name a)) = Some instances)
             \<and> ((\<forall>b \<in> set ys. entry_instances cfg b \<noteq> None \<longrightarrow>
                     entry_vip_key b \<noteq> entry_vip_key a) \<longrightarrow>
                  vip (cache st') (entry_vip_key a) = Some instances
                \<and> (\<forall>x \<in> set instances. prop_key (vipAddress_of x) = entry_vip_key a \<longrightarrow>
                      vip (cache st') (prop_key (vipAddress_of x)) = Some instances)))
       \<and> (\<forall>a c. transformApp cfg a c =
              (case entry_instances cfg a of
                 None \<Rightarrow> c
               | Some instances \<Rightarrow>
                   c\<lparr>app := (app c)(toUpperCase (app_name a) \<mapsto> instances),
                     vip := (vip c)(entry_vip_key a \<mapsto> instances)\<rparr>))
       \<and> (\<forall>a i0 rest. app_instance a = Arr (i0 # rest) \<longrightarrow>
              entry_instances cfg a = Some (filter (validateInstance cfg) (map Obj (i0 # rest)))
            \<and> entry_vip_key a = vipAddress i0)
       \<and> (\<forall>a i. app_instance a = Obj i \<longrightarrow>
              entry_instances cfg a = (if validateInstance cfg (Obj i) then Some [Obj i] else None)
            \<and> entry_vip_key a = vipAddress i)
       \<and> (\<forall>a. app_instance a = Arr [] \<longrightarrow>
              entry_instances cfg a = (if filterUpInstances cfg then None else Some [Arr []])
            \<and> entry_vip_key a = ''undefined'')"
proof -
  from fetch_parsed_issued [OF assms(1,2,3)] obtain tk where
    "st' = fst (fetch_response cfg callback (Responded 200 (Parsed (Some r))) (st\<lparr>oauth_token := tk\<rparr>))"
    by blast
  then have c: "cache st' = transformRegistry cfg (Some r) (cache st)"
    by (simp add: fetch_response_parsed)
  have A: "app (cache st') k = last_stored cfg (\<lambda>a. toUpperCase (app_name a)) (entries apps) k" for k
    unfolding c using assms(4) by (rule installed_cache)
  have V: "vip (cache st') k = last_stored cfg entry_vip_key (entries apps) k" for k
    unfolding c using assms(4) by (rule installed_cache)
  have P: "((\<forall>b \<in> set ys. entry_instances cfg b \<noteq> None \<longrightarrow>
                     toUpperCase (app_name b) \<noteq> toUpperCase (app_name a)) \<longrightarrow>
                  app (cache st') (toUpperCase (app_name a)) = Some instances)
             \<and> ((\<forall>b \<in> set ys. entry_instances cfg b \<noteq> None \<longrightarrow>
                     entry_vip_key b \<noteq> entry_vip_key a) \<longrightarrow>
                  vip (cache st') (entry_vip_key a) = Some instances
                \<and> (\<forall>x \<in> set instances. prop_key (vipAddress_of x) = entry_vip_key a \<longrightarrow>
                      vip (cache st') (prop_key (vipAddress_of x)) = Some instances))"
    if e: "entries apps = xs @ a # ys" and i: "entry_instances cfg a = Some instances"
    for xs a ys instances
  proof -
    have 1: "app (cache st') (toUpperCase (app_name a)) = Some instances"
      if "\<forall>b \<in> set ys. entry_instances cfg b \<noteq> None \<longrightarrow>
             toUpperCase (app_name b) \<noteq> toUpperCase (app_name a)"
      using last_stored_at [of "entries apps" xs a ys cfg instances "\<lambda>a. toUpperCase (app_name a)",
              OF e i] that
      by (simp add: A)
    have 2: "vip (cache st') (entry_vip_key a) = Some instances"
      if "\<forall>b \<in> set ys. entry_instances cfg b \<noteq> None \<longrightarrow> entry_vip_key b \<noteq> entry_vip_key a"
      using last_stored_at [of "entries apps" xs a ys cfg instances entry_vip_key, OF e i] that
      by (simp add: V)
    from 1 2 show ?thesis by simp
  qed
  have E1: "entry_instances cfg a = Some (filter (validateInstance cfg) (map Obj (i0 # rest)))
            \<and> entry_vip_key a = vipAddress i0" if "app_instance a = Arr (i0 # rest)" for a i0 rest
    using that by (simp add: entry_instances_def entry_vip_key_def prop_key_def)
  have E2: "entry_instances cfg a = (if validateInstance cfg (Obj i) then Some [Obj i] else None)
            \<and> entry_vip_key a = vipAddress i" if "app_instance a = Obj i" for a i
    using that by (simp add: entry_instances_def entry_vip_key_def prop_key_def vipAddress_of_def)
  have E3: "entry_instances cfg a = (if filterUpInstances cfg then None else Some [Arr []])
            \<and> entry_vip_key a = ''undefined''" if "app_instance a = Arr []" for a
    using that by (simp add: entry_instances_def entry_vip_key_def prop_key_def vipAddress_of_def
                     validateInstance_def status_of_def)
  from A V P E1 E2 E3 transformApp_entry [of cfg] show ?thesis by blast
qed

theorem installed_cache_index_witness:
  "(\<exists>req. Sent req \<in> set (snd (fetchRegistry cfg_static Caller fetch_orders_pay st_cached)))
   \<and> fetch_outcome fetch_orders_pay = Responded 200 (Parsed (Some \<lparr>applications = \<lparr>application =
         Some (AppArray [orders_two_vips, pay])\<rparr>\<rparr>))
   \<and> entries (AppArray [orders_two_vips, pay]) = [] @ orders_two_vips # [pay]
   \<and> entry_instances cfg_static orders_two_vips = Some [Obj inst_a, Obj inst_b]
   \<and> entry_instances cfg_static pay = Some [Obj inst_e]
   \<and> toUpperCase (app_name pay) \<noteq> toUpperCase (app_name orders_two_vips)
   \<and> entry_vip_key pay = entry_vip_key orders_two_vips
   \<and> app (cache (fst (fetchRegistry cfg_static Caller fetch_orders_pay st_cached))) ''ORDERS''
       = Some [Obj inst_a, Obj inst_b]
   \<and> app (cache (fst (fetchRegistry cfg_static Caller fetch_orders_pay st_cached))) ''PAY''
       = Some [Obj inst_e]
   \<and> vip (cache (fst (fetchRegistry cfg_static Caller fetch_orders_pay st_cached))) ''orders-vip''
       = Some [Obj inst_e]
   \<and> vip (cache (fst (fetchRegistry cfg_static Caller fetch_orders_pay st_cached))) ''orders-v2''
       = None"
proof -
  have run: "fetchRegistry cfg_static Caller fetch_orders_pay st_cached
      = (fst (fetchRegistry cfg_static Caller fetch_orders_pay st_cached),
         snd (fetchRegistry cfg_static Caller fetch_orders_pay st_cached))"
    by simp
  have s: "Sent \<lparr>verb = GET, base = Static (Some ''http://eureka1/apps/''), path = [],
       headers = [''Accept'' \<mapsto> ''application/json'']\<rparr>
       \<in> set (snd (fetchRegistry cfg_static Caller fetch_orders_pay st_cached))"
    by (simp add: eval_defs fetch_eval_defs cfg_static_def lookup_quiet_def st_beating_def
          st_cached_def fetch_orders_pay_def)
  have o: "fetch_outcome fetch_orders_pay = Responded 200 (Parsed (Some \<lparr>applications = \<lparr>application =
         Some (AppArray [orders_two_vips, pay])\<rparr>\<rparr>))"
    by (simp add: fetch_orders_pay_def)
  have a: "application (applications \<lparr>applications = \<lparr>application =
         Some (AppArray [orders_two_vips, pay])\<rparr>\<rparr>) = Some (AppArray [orders_two_vips, pay])"
    by simp
  note T = installed_cache_index [OF run s o a]
  have e: "entries (AppArray [orders_two_vips, pay]) = [] @ orders_two_vips # [pay]
   \<and> entry_instances cfg_static orders_two_vips = Some [Obj inst_a, Obj inst_b]
   \<and> entry_instances cfg_static pay = Some [Obj inst_e]
   \<and> toUpperCase (app_name pay) \<noteq> toUpperCase (app_name orders_two_vips)
   \<and> entry_vip_key pay = entry_vip_key orders_two_vips"
    by (simp add: entries_def entry_instances_def entry_vip_key_def fetch_eval_defs cfg_static_def
          orders_two_vips_def pay_def inst_a_def inst_b_def inst_e_def)
  have c: "app (cache (fst (fetchRegistry cfg_static Caller fetch_orders_pay st_cached))) ''ORDERS''
       = Some [Obj inst_a, Obj inst_b]
   \<and> app (cache (fst (fetchRegistry cfg_static Caller fetch_orders_pay st_cached))) ''PAY''
       = Some [Obj inst_e]
   \<and> vip (cache (fst (fetchRegistry cfg_static Caller fetch_orders_pay st_cached))) ''orders-vip''
       = Some [Obj inst_e]
   \<and> vip (cache (fst (fetchRegistry cfg_static Caller fetch_orders_pay st_cached))) ''orders-v2''
       = None"
    by (simp add: eval_defs fetch_eval_defs cfg_static_def lookup_quiet_def st_beating_def
          st_cached_def fetch_orders_pay_def orders_two_vips_def pay_def inst_a_def inst_b_def
          inst_e_def)
  have W: ?thesis using s o e c by blast
  from T show ?thesis by - (rule W)
qed

text \<open>
  C8, as stated, fails: with filtering on, a single instance object that is not \<open>UP\<close>
  puts nothing into either mapping, while the array holding that one instance puts the
  empty list under both keys.
\<close>

theorem single_instance_shape_counterexample:
  "filterUpInstances cfg_static \<and> status inst_down = ''DOWN''
   \<and> app (transformApp cfg_static billing_single_down empty_cache) ''BILLING'' = None
   \<and> vip (transformApp cfg_static billing_single_down empty_cache) ''billing-vip'' = None
   \<and> app (transformApp cfg_static billing_array_down empty_cache) ''BILLING'' = Some []
   \<and> vip (transformApp cfg_static billing_array_down empty_cache) ''billing-vip'' = Some []"
  by (simp add: transform_defs cfg_static_def billing_single_down_def billing_array_down_def
        inst_down_def)

text \<open>
  C8, amended.  A single instance object that passes \<^verbatim>\<open>validateInstance\<close> gives exactly
  the cache that the one-element array holding it gives: both mappings hold the
  one-element list.  A single instance object that does not pass puts nothing into the
  cache, where the array holding it puts the empty list under both keys.  An instance
  array that is not empty always puts a list under both keys.
\<close>

theorem single_instance_normalized:
  "(validateInstance cfg (Obj i) \<longrightarrow>
        transformApp cfg (a\<lparr>app_instance := Obj i\<rparr>) c = transformApp cfg (a\<lparr>app_instance := Arr [i]\<rparr>) c
      \<and> app (transformApp cfg (a\<lparr>app_instance := Obj i\<rparr>) c) (toUpperCase (app_name a)) = Some [Obj i]
      \<and> vip (transformApp cfg (a\<lparr>app_instance := Obj i\<rparr>) c) (vipAddress i) = Some [Obj i])
   \<and> (\<not> validateInstance cfg (Obj i) \<longrightarrow>
        transformApp cfg (a\<lparr>app_instance := Obj i\<rparr>) c = c
      \<and> app (transformApp cfg (a\<lparr>app_instance := Arr [i]\<rparr>) c) (toUpperCase (app_name a)) = Some []
      \<and> vip (transformApp cfg (a\<lparr>app_instance := Arr [i]\<rparr>) c) (vipAddress i) = Some [])
   \<and> app (transformApp cfg (a\<lparr>app_instance := Arr (i0 # rest)\<rparr>) c) (toUpperCase (app_name a))
       = Some (filter (validateInstance cfg) (map Obj (i0 # rest)))
   \<and> vip (transformApp cfg (a\<lparr>app_instance := Arr (i0 # rest)\<rparr>) c) (vipAddress i0)
       = Some (filter (validateInstance cfg) (map Obj (i0 # rest)))"
  by (simp add: transformApp_Arr transformApp_Obj)

theorem single_instance_normalized_witness:
  "validateInstance cfg_static (Obj inst_c)
   \<and> transformApp cfg_static (billing_single_down\<lparr>app_instance := Obj inst_c\<rparr>) empty_cache
       = transformApp cfg_static (billing_single_down\<lparr>app_instance := Arr [inst_c]\<rparr>) empty_cache
   \<and> app (transformApp cfg_static (billing_single_down\<lparr>app_instance := Obj inst_c\<rparr>) empty_cache)
        ''BILLING'' = Some [Obj inst_c]
   \<and> vip (transformApp cfg_static (billing_single_down\<lparr>app_instance := Obj inst_c\<rparr>) empty_cache)
        ''billing-vip'' = Some [Obj inst_c]
   \<and> \<not> validateInstance cfg_static (Obj inst_down)
   \<and> transformApp cfg_static (billing_single_down\<lparr>app_instance := Obj inst_down\<rparr>) empty_cache
       = empty_cache
   \<and> app (transformApp cfg_static (billing_single_down\<lparr>app_instance := Arr [inst_down]\<rparr>) empty_cache)
        ''BILLING'' = Some []"
proof -
  note T1 = single_instance_normalized [of cfg_static inst_c billing_single_down empty_cache]
  note T2 = single_instance_normalized [of cfg_static inst_down billing_single_down empty_cache]
  have W: ?thesis by (simp add: transform_defs cfg_static_def billing_single_down_def
        inst_c_def inst_down_def)
  from T1 T2 show ?thesis by - (rule W)
qed

subsection \<open>Errors of endpoint resolution and of the token request\<close>

lemmas lookup_eval_defs = locateEurekaHostUsingDns_def getTokenForClientCredentials_def js_falsy_def template_def
  random_index_def index_def then_throw_def deregister_def

text \<open>
  C6.  What the code does with DNS discovery on: with no region configured, with a
  region and a failing first lookup, and with a failing second lookup, \<^verbatim>\<open>register()\<close>
  receives no error from the lookup; it posts to the URL formatted from the current
  entry of the ring with no resolved host, and the registration succeeds.  A registry
  fetch in the same configuration reports success.
\<close>

theorem dns_error_not_surfaced:
  "useDns cfg_dns \<and> ec2Region cfg_dns = None
   \<and> snd (register cfg_dns Caller env_accepted st_fresh)
       = [Sent \<lparr>verb = POST, base = Formatted (Some ''http://eureka1/apps/'') None,
                path = ''orders'', headers = Map.empty\<rparr>,
          Emit ''registered'', Invoke Caller None]
   \<and> useDns cfg_dns_region \<and> ec2Region cfg_dns_region = Some ''us-east-1''
   \<and> resolveTxt (dns (reg_lookup env_accepted)) ''txt.us-east-1.null'' = Inl ''ENOTFOUND''
   \<and> snd (register cfg_dns_region Caller env_accepted st_fresh)
       = [Sent \<lparr>verb = POST, base = Formatted (Some ''http://eureka1/apps/'') None,
                path = ''orders'', headers = Map.empty\<rparr>,
          Emit ''registered'', Invoke Caller None]
   \<and> resolveTxt (dns lookup_second_fails) ''txt.us-east-1a.eureka1'' = Inl ''ENOTFOUND''
   \<and> snd (register cfg_dns_region Caller (env_accepted\<lparr>reg_lookup := lookup_second_fails\<rparr>) st_fresh)
       = [Sent \<lparr>verb = POST, base = Formatted (Some ''http://eureka1/apps/'') None,
                path = ''orders'', headers = Map.empty\<rparr>,
          Emit ''registered'', Invoke Caller None, Thrown TypeError]
   \<and> invocations (snd (fetchRegistry cfg_dns Caller fetch_billing st_cached)) = [(Caller, None)]"
  by (simp add: eval_defs fetch_eval_defs lookup_eval_defs cfg_dns_def cfg_dns_region_def
        lookup_second_fails_def cfg_static_def lookup_quiet_def env_accepted_def st_fresh_def
        st_beating_def st_cached_def fetch_billing_def inst_a_def inst_c_def)

text \<open>
  C7.  What the code does with OAuth2 on when the token request fails: the call goes out,
  and its request carries an \<open>Authorization\<close> header made from the token object the
  helper holds: \<open>Bearer undefined\<close> for the initial empty object, the old token after an
  earlier success.
\<close>

theorem token_failure_sends_authorization:
  "oAuth2Enabled cfg_oauth \<and> token_result lookup_quiet = Inl ''ECONNREFUSED''
   \<and> oauth_token st_fresh = \<lparr>access_token = None\<rparr>
   \<and> requests (snd (register cfg_oauth Caller env_accepted st_fresh))
       = [\<lparr>verb = POST, base = Static (Some ''http://eureka1/apps/''), path = ''orders'',
           headers = [''Authorization'' \<mapsto> ''Bearer undefined'']\<rparr>]
   \<and> requests (snd (fetchRegistry cfg_oauth Caller fetch_billing st_fresh))
       = [\<lparr>verb = GET, base = Static (Some ''http://eureka1/apps/''), path = [],
           headers = [''Accept'' \<mapsto> ''application/json'',
                      ''Authorization'' \<mapsto> ''Bearer undefined'']\<rparr>]
   \<and> requests (snd (renew cfg_oauth hb_alive st_beating))
       = [\<lparr>verb = PUT, base = Static (Some ''http://eureka1/apps/''), path = ''orders/orders-1'',
           headers = [''Authorization'' \<mapsto> ''Bearer undefined'']\<rparr>]
   \<and> requests (snd (deregister cfg_oauth Caller
          \<lparr>dereg_lookup = lookup_quiet, dereg_outcome = Responded 200 []\<rparr> st_beating))
       = [\<lparr>verb = DELETE, base = Static (Some ''http://eureka1/apps/''), path = ''orders/orders-1'',
           headers = [''Authorization'' \<mapsto> ''Bearer undefined'']\<rparr>]
   \<and> requests (snd (register cfg_oauth Caller env_accepted
          (st_fresh\<lparr>oauth_token := \<lparr>access_token = Some ''stale''\<rparr>\<rparr>)))
       = [\<lparr>verb = POST, base = Static (Some ''http://eureka1/apps/''), path = ''orders'',
           headers = [''Authorization'' \<mapsto> ''Bearer stale'']\<rparr>]"
  by (simp add: eval_defs fetch_eval_defs lookup_eval_defs cfg_oauth_def cfg_static_def
        lookup_quiet_def env_accepted_def st_fresh_def st_beating_def hb_alive_def
        fetch_billing_def inst_c_def)

end
